theory Spec2Isabelle
  imports Main "HOL-Library.AList"
begin

section \<open>JavaScript values and records\<close>

text \<open>
  The engine passes untyped JavaScript values around (\<^verbatim>\<open>data: any\<close>). The model keeps
  the shapes the code distinguishes with \<^verbatim>\<open>=== null\<close>, \<^verbatim>\<open>=== undefined\<close>, \<^verbatim>\<open>typeof\<close> and
  \<^verbatim>\<open>Array.isArray\<close>. Numbers are integers (no NaN, no fractions). \<open>JRaw\<close> is the object
  \<^verbatim>\<open>knex.raw(sql)\<close> returns. An object is an association list in insertion order with
  distinct keys; the prototype chain is not modelled.
\<close>

datatype jsval =
    JUndef
  | JNull
  | JBool bool
  | JNum int
  | JStr string
  | JArr "jsval list"
  | JObj "(string \<times> jsval) list"
  | JRaw string

type_synonym jsrecord = "(string \<times> jsval) list"

text \<open>JavaScript truthiness, as \<^verbatim>\<open>!x\<close>, \<^verbatim>\<open>x || y\<close> and \<^verbatim>\<open>if (x)\<close> read it.\<close>

fun truthy :: "jsval \<Rightarrow> bool" where
  "truthy JUndef = False"
| "truthy JNull = False"
| "truthy (JBool b) = b"
| "truthy (JNum n) = (n \<noteq> 0)"
| "truthy (JStr s) = (s \<noteq> [])"
| "truthy (JArr xs) = True"
| "truthy (JObj kvs) = True"
| "truthy (JRaw q) = True"

text \<open>\<^verbatim>\<open>k in obj\<close>, \<^verbatim>\<open>obj[k]\<close> (undefined when absent), \<^verbatim>\<open>obj[k] = v\<close> and \<^verbatim>\<open>delete obj[k]\<close>.\<close>

definition has_key :: "string \<Rightarrow> jsrecord \<Rightarrow> bool" where
  "has_key k r = (k \<in> fst ` set r)"

definition get_prop :: "jsrecord \<Rightarrow> string \<Rightarrow> jsval" where
  "get_prop r k = (case map_of r k of None \<Rightarrow> JUndef | Some v \<Rightarrow> v)"

definition set_prop :: "string \<Rightarrow> jsval \<Rightarrow> jsrecord \<Rightarrow> jsrecord" where
  "set_prop k v r = AList.update k v r"

definition delete_prop :: "string \<Rightarrow> jsrecord \<Rightarrow> jsrecord" where
  "delete_prop k r = AList.delete k r"

datatype error = Error string

section \<open>Hook pipeline (hook-registry.ts / knex.service.ts: addHook, runHooks)\<close>

datatype HookEvent =
    beforeInsert | afterInsert | beforeUpdate | afterUpdate
  | beforeDelete | afterDelete | beforeSelect | afterSelect

text \<open>
  A handler is called as \<^verbatim>\<open>hook.apply(null, args)\<close> and awaited. It may have effects (on
  the database, on the cascade context): the state \<open>'s\<close> is threaded through. A handler
  that throws (or whose promise rejects) returns \<open>Inl\<close> with the state it left behind.
\<close>

type_synonym 's handler = "jsval list \<Rightarrow> 's \<Rightarrow> (error + jsval) \<times> 's"

type_synonym 's HookRegistry = "HookEvent \<Rightarrow> 's handler list"

definition emptyHooks :: "'s HookRegistry" where
  "emptyHooks = (\<lambda>event. [])"

text \<open>\<^verbatim>\<open>this.hooks[event].push(handler)\<close>; every value of \<open>HookEvent\<close> is a known event.\<close>

definition addHook :: "HookEvent \<Rightarrow> 's handler \<Rightarrow> 's HookRegistry \<Rightarrow> 's HookRegistry" where
  "addHook event h hooks = hooks(event := hooks event @ [h])"

text \<open>\<^verbatim>\<open>args[args.length - 1]\<close>: undefined on an empty argument list.\<close>

definition last_arg :: "jsval list \<Rightarrow> jsval" where
  "last_arg args = (if args = [] then JUndef else last args)"

text \<open>
  \<^verbatim>\<open>args[args.length - 1] = result\<close>: on an empty array the assignment creates the
  property \<^verbatim>\<open>-1\<close> and leaves the elements (what \<^verbatim>\<open>apply\<close> passes) as they are.
\<close>

definition set_last_arg :: "jsval list \<Rightarrow> jsval \<Rightarrow> jsval list" where
  "set_last_arg args v = (if args = [] then [] else butlast args @ [v])"

text \<open>The body of the \<^verbatim>\<open>for (const hook of this.hooks[event])\<close> loop.\<close>

fun runChain :: "'s handler list \<Rightarrow> jsval list \<Rightarrow> jsval \<Rightarrow> 's \<Rightarrow> (error + jsval) \<times> 's" where
  "runChain [] args result s = (Inr result, s)"
| "runChain (hook # hooks) args result s =
     (case hook args s of
        (Inl e, s') \<Rightarrow> (Inl e, s')
      | (Inr r, s') \<Rightarrow> runChain hooks (set_last_arg args r) r s')"

definition runHooks :: "'s HookRegistry \<Rightarrow> HookEvent \<Rightarrow> jsval list \<Rightarrow> 's \<Rightarrow> (error + jsval) \<times> 's" where
  "runHooks hooks event args s = runChain (hooks event) args (last_arg args) s"

text \<open>Handlers used to exercise the chain: one logs its tag and returns it, one logs and throws.\<close>

definition logHook :: "string \<Rightarrow> string list handler" where
  "logHook tag = (\<lambda>args s. (Inr (JStr tag), s @ [tag]))"

definition throwHook :: "string \<Rightarrow> string list handler" where
  "throwHook msg = (\<lambda>args s. (Inl (Error msg), s @ [msg]))"

definition demoHooks :: "string list HookRegistry" where
  "demoHooks = addHook beforeInsert (throwHook ''boom'') (addHook beforeInsert (logHook ''a'') emptyHooks)"

section \<open>Table metadata (spec section 3; read through metadataCacheService)\<close>

datatype RelationType = ManyToOne | OneToMany | OneToOne | ManyToMany

text \<open>
  Optional properties are \<open>option\<close>s: \<open>None\<close> is a missing (undefined) property. The
  field \<^verbatim>\<open>type\<close> is \<open>rtype\<close> (relations) and \<open>ctype\<close> (columns); a column's and a table's
  \<^verbatim>\<open>name\<close> are \<open>name\<close> and \<open>table_name\<close>.
\<close>

record RelationMeta =
  propertyName :: string
  rtype :: RelationType
  targetTableName :: string
  foreignKeyColumn :: "string option"
  junctionTableName :: "string option"
  junctionSourceColumn :: "string option"
  junctionTargetColumn :: "string option"

record ColumnMeta =
  name :: string
  ctype :: string

record TableMetadata =
  table_name :: string
  columns :: "ColumnMeta list option"
  relations :: "RelationMeta list option"

text \<open>
  \<^verbatim>\<open>getMetadata()\<close> returns \<^verbatim>\<open>{tables: Map<name, TableMetadata>, tablesList}\<close>; the Map is
  the list of its entries in insertion order.
\<close>

record Metadata =
  tables :: "(string \<times> TableMetadata) list option"
  tablesList :: "TableMetadata list option"

text \<open>
  \<^verbatim>\<open>metadata.tables?.get?.(tableName) || metadata.tablesList?.find(t => t.name === tableName)\<close>
\<close>

definition lookupTableMeta :: "Metadata \<Rightarrow> string \<Rightarrow> TableMetadata option" where
  "lookupTableMeta metadata tableName =
     (case (case tables metadata of None \<Rightarrow> None | Some m \<Rightarrow> map_of m tableName) of
        Some t \<Rightarrow> Some t
      | None \<Rightarrow>
          (case tablesList metadata of
             None \<Rightarrow> None
           | Some l \<Rightarrow> find (\<lambda>t. table_name t = tableName) l))"

text \<open>A string-valued optional property read for its truthiness: \<^verbatim>\<open>x || fallback\<close>, \<^verbatim>\<open>!x\<close>.\<close>

definition truthy_str :: "string option \<Rightarrow> bool" where
  "truthy_str x = (case x of None \<Rightarrow> False | Some s \<Rightarrow> s \<noteq> [])"

section \<open>Relation transformer (knex.service.ts: transformRelationsToFK)\<close>

text \<open>\<^verbatim>\<open>['many-to-one', 'one-to-one'].includes(relation.type)\<close> and its to-many counterpart.\<close>

definition isToOne :: "RelationMeta \<Rightarrow> bool" where
  "isToOne relation = (rtype relation = ManyToOne \<or> rtype relation = OneToOne)"

definition isToMany :: "RelationMeta \<Rightarrow> bool" where
  "isToMany relation = (rtype relation = OneToMany \<or> rtype relation = ManyToMany)"

text \<open>\<^verbatim>\<open>relation.foreignKeyColumn || `${relName}Id`\<close>\<close>

definition fkColumnOf :: "RelationMeta \<Rightarrow> string" where
  "fkColumnOf relation =
     (if truthy_str (foreignKeyColumn relation) then the (foreignKeyColumn relation)
      else propertyName relation @ ''Id'')"

text \<open>\<^verbatim>\<open>typeof v === 'object'\<close> (true of null, arrays and raw expressions too).\<close>

fun typeof_object :: "jsval \<Rightarrow> bool" where
  "typeof_object JNull = True"
| "typeof_object (JArr xs) = True"
| "typeof_object (JObj kvs) = True"
| "typeof_object (JRaw q) = True"
| "typeof_object v = False"

text \<open>\<^verbatim>\<open>v.id\<close> on a value that is not null or undefined: only a plain object can carry it.\<close>

fun prop_id :: "jsval \<Rightarrow> jsval" where
  "prop_id (JObj kvs) = get_prop kvs ''id''"
| "prop_id v = JUndef"

fun number_or_string :: "jsval \<Rightarrow> bool" where
  "number_or_string (JNum n) = True"
| "number_or_string (JStr s) = True"
| "number_or_string v = False"

text \<open>One iteration of the first loop (to-one relations).\<close>

definition toOneStep :: "jsrecord \<Rightarrow> RelationMeta \<Rightarrow> jsrecord" where
  "toOneStep transformed relation =
     (if \<not> isToOne relation then transformed
      else
        let relName = propertyName relation;
            fkColumn = fkColumnOf relation
        in if has_key relName transformed then
             (let relValue = get_prop transformed relName
              in if relValue = JNull then
                   delete_prop relName (set_prop fkColumn JNull transformed)
                 else if typeof_object relValue \<and> prop_id relValue \<noteq> JUndef then
                   delete_prop relName (set_prop fkColumn (prop_id relValue) transformed)
                 else if number_or_string relValue then
                   delete_prop relName (set_prop fkColumn relValue transformed)
                 else delete_prop relName transformed)
           else transformed)"

text \<open>One iteration of the second loop (to-many relations).\<close>

definition toManyStep :: "jsrecord \<Rightarrow> RelationMeta \<Rightarrow> jsrecord" where
  "toManyStep transformed relation =
     (if isToMany relation then
        (let relName = propertyName relation
         in if has_key relName transformed then delete_prop relName transformed else transformed)
      else transformed)"

text \<open>
  \<open>None\<close> for the metadata is \<^verbatim>\<open>getMetadata()\<close> resolving to null: reading
  \<^verbatim>\<open>metadata.tables\<close> then throws a TypeError.
\<close>

definition transformRelationsToFK :: "Metadata option \<Rightarrow> string \<Rightarrow> jsrecord \<Rightarrow> error + jsrecord" where
  "transformRelationsToFK metadata tableName data =
     (if tableName = [] then Inr data
      else case metadata of
        None \<Rightarrow> Inl (Error ''TypeError'')
      | Some md \<Rightarrow>
          (case lookupTableMeta md tableName of
             None \<Rightarrow> Inr data
           | Some tableMeta \<Rightarrow>
               (case relations tableMeta of
                  None \<Rightarrow> Inr data
                | Some rels \<Rightarrow> Inr (foldl toManyStep (foldl toOneStep data rels) rels))))"

text \<open>
  The rule the specification gives for the foreign-key value,
  \<^verbatim>\<open>relationId = value.id ?? value\<close>, or null: written from the specification's words, to be
  compared with what \<open>toOneStep\<close> stores.
\<close>

definition spec_relationId :: "jsval \<Rightarrow> jsval" where
  "spec_relationId v =
     (if v = JNull \<or> v = JUndef then JNull
      else if prop_id v = JUndef \<or> prop_id v = JNull then v
      else prop_id v)"

text \<open>What \<open>toOneStep\<close> stores in the foreign-key column, if anything (used in the proofs).\<close>

definition storedId :: "jsval \<Rightarrow> jsval option" where
  "storedId relValue =
     (if relValue = JNull then Some JNull
      else if typeof_object relValue \<and> prop_id relValue \<noteq> JUndef then Some (prop_id relValue)
      else if number_or_string relValue then Some relValue
      else None)"

text \<open>The two loop bodies read on finite maps (used in the proofs).\<close>

definition toOneStepM :: "(string \<rightharpoonup> jsval) \<Rightarrow> RelationMeta \<Rightarrow> (string \<rightharpoonup> jsval)" where
  "toOneStepM m relation =
     (if \<not> isToOne relation then m
      else case m (propertyName relation) of
        None \<Rightarrow> m
      | Some v \<Rightarrow>
          (case storedId v of
             Some x \<Rightarrow> (m(fkColumnOf relation \<mapsto> x))(propertyName relation := None)
           | None \<Rightarrow> m(propertyName relation := None)))"

definition toManyStepM :: "(string \<rightharpoonup> jsval) \<Rightarrow> RelationMeta \<Rightarrow> (string \<rightharpoonup> jsval)" where
  "toManyStepM m relation = (if isToMany relation then m(propertyName relation := None) else m)"

text \<open>
  Scenario A of the specification: table \<^verbatim>\<open>article\<close> with a many-to-one \<^verbatim>\<open>author\<close> (foreign key
  \<^verbatim>\<open>authorId\<close>) and a many-to-many \<^verbatim>\<open>tags\<close> through \<^verbatim>\<open>article_tags(articleId, tagId)\<close>.
\<close>

definition authorRel :: RelationMeta where
  "authorRel = \<lparr> propertyName = ''author'', rtype = ManyToOne, targetTableName = ''user'',
      foreignKeyColumn = Some ''authorId'', junctionTableName = None,
      junctionSourceColumn = None, junctionTargetColumn = None \<rparr>"

definition tagsRel :: RelationMeta where
  "tagsRel = \<lparr> propertyName = ''tags'', rtype = ManyToMany, targetTableName = ''tag'',
      foreignKeyColumn = None, junctionTableName = Some ''article_tags'',
      junctionSourceColumn = Some ''articleId'', junctionTargetColumn = Some ''tagId'' \<rparr>"

definition articleMeta :: TableMetadata where
  "articleMeta = \<lparr> table_name = ''article'',
      columns = Some [\<lparr> name = ''id'', ctype = ''int'' \<rparr>, \<lparr> name = ''title'', ctype = ''varchar'' \<rparr>],
      relations = Some [authorRel, tagsRel] \<rparr>"

definition scenarioMetadata :: Metadata where
  "scenarioMetadata = \<lparr> tables = Some [(''article'', articleMeta)], tablesList = None \<rparr>"

text \<open>
  The specification's rule as a predicate on one run: the relation key is gone and the foreign-key
  column holds \<open>spec_relationId\<close> of the relation value.
\<close>

definition spec_fk_rule :: "Metadata \<Rightarrow> string \<Rightarrow> RelationMeta \<Rightarrow> jsrecord \<Rightarrow> bool" where
  "spec_fk_rule md tableName relation data =
     (case transformRelationsToFK (Some md) tableName data of
        Inl e \<Rightarrow> False
      | Inr t \<Rightarrow>
          \<not> has_key (propertyName relation) t \<and>
          map_of t (fkColumnOf relation) =
            Some (spec_relationId (get_prop data (propertyName relation))))"

section \<open>String helpers (the JavaScript string methods the executor uses)\<close>

text \<open>\<^verbatim>\<open>s.split(c)\<close> for a one-character separator: always at least one piece.\<close>

fun split_on :: "char \<Rightarrow> string \<Rightarrow> string list" where
  "split_on c [] = [[]]"
| "split_on c (x # xs) =
     (if x = c then [] # split_on c xs
      else (case split_on c xs of
              [] \<Rightarrow> [[x]]
            | p # ps \<Rightarrow> (x # p) # ps))"

text \<open>\<^verbatim>\<open>s.trim()\<close> on ASCII white space.\<close>

definition is_space :: "char \<Rightarrow> bool" where
  "is_space c = (c = CHR '' '' \<or> c = CHR 0x09 \<or> c = CHR 0x0A \<or> c = CHR 0x0B \<or> c = CHR 0x0C \<or> c = CHR 0x0D)"

definition trim :: "string \<Rightarrow> string" where
  "trim s = rev (dropWhile is_space (rev (dropWhile is_space s)))"

text \<open>\<^verbatim>\<open>s.startsWith(p)\<close> and \<^verbatim>\<open>s.includes(p)\<close> (\<open>includes\<close> is a keyword).\<close>

fun startsWith :: "string \<Rightarrow> string \<Rightarrow> bool" where
  "startsWith s [] = True"
| "startsWith [] (p # ps) = False"
| "startsWith (x # xs) (p # ps) = (x = p \<and> startsWith xs ps)"

fun str_includes :: "string \<Rightarrow> string \<Rightarrow> bool" where
  "str_includes [] p = (p = [])"
| "str_includes (x # xs) p = (startsWith (x # xs) p \<or> str_includes xs p)"

text \<open>\<^verbatim>\<open>s.replace(a, b)\<close> with one-character strings: only the first occurrence is replaced.\<close>

fun replace_first :: "char \<Rightarrow> char \<Rightarrow> string \<Rightarrow> string" where
  "replace_first a b [] = []"
| "replace_first a b (x # xs) = (if x = a then b # xs else x # replace_first a b xs)"

section \<open>Unified query executor (query-builder.service.ts)\<close>

subsection \<open>Pagination (sqlExecutor and mongoExecutor, "Convert pagination")\<close>

text \<open>
  \<^verbatim>\<open>page?: number\<close> and \<^verbatim>\<open>limit?: number\<close>: \<open>None\<close> is undefined. The \<^verbatim>\<open>parseInt\<close> branches
  for string arguments lie outside the declared type and are not modelled.
\<close>

definition truthy_num :: "int option \<Rightarrow> bool" where
  "truthy_num x = (case x of None \<Rightarrow> False | Some n \<Rightarrow> n \<noteq> 0)"

record Pagination =
  offset :: "int option"
  limit :: "int option"

definition convertPagination :: "int option \<Rightarrow> int option \<Rightarrow> Pagination" where
  "convertPagination page lim =
     (if truthy_num page \<and> truthy_num lim then
        \<lparr> offset = Some ((the page - 1) * the lim), limit = lim \<rparr>
      else if truthy_num lim then \<lparr> offset = None, limit = lim \<rparr>
      else \<lparr> offset = None, limit = None \<rparr>)"

text \<open>
  The tail of the query construction, read on the rows the query would yield without
  it (the matching rows in the requested order):
  \<^verbatim>\<open>if (queryOptions.offset) query = query.offset(queryOptions.offset)\<close>, then
  \<^verbatim>\<open>if (limit !== undefined && limit !== null && limit > 0) query = query.limit(limit)\<close>.
  The query builder rejects a negative offset.
\<close>

definition applyOffset :: "int option \<Rightarrow> 'r list \<Rightarrow> error + 'r list" where
  "applyOffset off rows =
     (if truthy_num off then
        (if the off < 0 then Inl (Error ''A non-negative integer must be provided to offset.'')
         else Inr (drop (nat (the off)) rows))
      else Inr rows)"

definition applyLimit :: "int option \<Rightarrow> 'r list \<Rightarrow> 'r list" where
  "applyLimit lim rows =
     (case lim of
        None \<Rightarrow> rows
      | Some n \<Rightarrow> if n > 0 then take (nat n) rows else rows)"

definition paginate :: "Pagination \<Rightarrow> 'r list \<Rightarrow> error + 'r list" where
  "paginate p rows =
     (case applyOffset (offset p) rows of
        Inl e \<Rightarrow> Inl e
      | Inr rs \<Rightarrow> Inr (applyLimit (limit p) rs))"

text \<open>The rows a select with the given \<open>page\<close> and \<open>limit\<close> returns from the ordered matching rows.\<close>

definition selectPage :: "int option \<Rightarrow> int option \<Rightarrow> 'r list \<Rightarrow> error + 'r list" where
  "selectPage page lim rows = paginate (convertPagination page lim) rows"

definition rows25 :: "int list" where
  "rows25 = [1, 2, 3, 4, 5, 6, 7, 8, 9, 10, 11, 12, 13, 14, 15, 16, 17, 18, 19, 20, 21, 22, 23, 24, 25]"

subsection \<open>Filter operators (sqlExecutor and mongoExecutor, "Convert filter to where conditions")\<close>

record WhereCondition =
  wfield :: string
  woperator :: string
  wvalue :: jsval

text \<open>The chain \<^verbatim>\<open>if (op === '_eq') operator = '='; else if ... else operator = op.replace('_', ' ')\<close>.\<close>

definition convertOperator :: "string \<Rightarrow> string" where
  "convertOperator op =
     (if op = ''_eq'' then ''=''
      else if op = ''_neq'' then ''!=''
      else if op = ''_in'' then ''in''
      else if op = ''_not_in'' then ''not in''
      else if op = ''_gt'' then ''>''
      else if op = ''_gte'' then ''>=''
      else if op = ''_lt'' then ''<''
      else if op = ''_lte'' then ''<=''
      else if op = ''_contains'' then ''like''
      else if op = ''_is_null'' then ''is null''
      else replace_first CHR ''_'' CHR '' '' op)"

text \<open>The decimal digits of an array index, as \<^verbatim>\<open>Object.entries\<close> names the elements of an array.\<close>

fun index_key :: "nat \<Rightarrow> string" where
  "index_key n =
     (if n < 10 then [char_of (48 + n)]
      else index_key (n div 10) @ [char_of (48 + n mod 10)])"

text \<open>
  \<^verbatim>\<open>Object.entries(value)\<close> for a value with \<^verbatim>\<open>typeof value === 'object' && value !== null\<close>.
  A filter is JSON, so no raw expression occurs in it; its entries are left empty.
\<close>

fun object_entries :: "jsval \<Rightarrow> (string \<times> jsval) list" where
  "object_entries (JObj kvs) = kvs"
| "object_entries (JArr xs) = zip (map index_key [0..<length xs]) xs"
| "object_entries v = []"

definition fieldConditions :: "string \<times> jsval \<Rightarrow> WhereCondition list" where
  "fieldConditions fv =
     (case fv of (field, v) \<Rightarrow>
        if typeof_object v \<and> v \<noteq> JNull then
          map (\<lambda>(op, val). \<lparr> wfield = field, woperator = convertOperator op, wvalue = val \<rparr>)
            (object_entries v)
        else [\<lparr> wfield = field, woperator = ''='', wvalue = v \<rparr>])"

text \<open>
  \<^verbatim>\<open>if (options.filter && !hasLogicalOperators(options.filter)) { queryOptions.where = []; ... }\<close>:
  \<open>None\<close> as argument is a missing filter, \<open>None\<close> as result is \<^verbatim>\<open>queryOptions.where\<close> left
  unset. \<^verbatim>\<open>hasLogicalOperators\<close> is imported from a file outside the sources and is a
  parameter here.
\<close>

definition filterToWhere :: "(jsrecord \<Rightarrow> bool) \<Rightarrow> jsrecord option \<Rightarrow> WhereCondition list option" where
  "filterToWhere hasLogical flt =
     (case flt of
        None \<Rightarrow> None
      | Some f \<Rightarrow> if \<not> hasLogical f then Some (concat (map fieldConditions f)) else None)"

text \<open>
  Modelled from the spec: \<^verbatim>\<open>hasLogicalOperators\<close> (utils/build-where-clause) is not among
  the sources; by the comments at its call sites it tells whether the filter contains
  \<^verbatim>\<open>_and\<close>, \<^verbatim>\<open>_or\<close> or \<^verbatim>\<open>_not\<close>.
\<close>

definition hasLogicalOperators :: "jsrecord \<Rightarrow> bool" where
  "hasLogicalOperators f = list_ex (\<lambda>kv. fst kv = ''_and'' \<or> fst kv = ''_or'' \<or> fst kv = ''_not'') f"

text \<open>The operator keys the chain names, with their translations (read off \<open>convertOperator\<close>).\<close>

definition operatorVocabulary :: "(string \<times> string) list" where
  "operatorVocabulary =
     [(''_eq'', ''=''), (''_neq'', ''!=''), (''_in'', ''in''), (''_not_in'', ''not in''),
      (''_gt'', ''>''), (''_gte'', ''>=''), (''_lt'', ''<''), (''_lte'', ''<=''),
      (''_contains'', ''like''), (''_is_null'', ''is null'')]"

subsection \<open>Counts (sqlExecutor "Parse meta requirements", mongoExecutor)\<close>

text \<open>\<^verbatim>\<open>meta\<close> is declared a string; the code also accepts an array.\<close>

datatype MetaOption = MetaUndefined | MetaString string | MetaArray "string list"

text \<open>
  \<^verbatim>\<open>Array.isArray(options.meta) ? options.meta
     : (options.meta || '').split(',').map((x) => x.trim()).filter(Boolean)\<close>
\<close>

definition metaParts :: "MetaOption \<Rightarrow> string list" where
  "metaParts m =
     (case m of
        MetaArray xs \<Rightarrow> xs
      | MetaString s \<Rightarrow> filter (\<lambda>x. x \<noteq> []) (map trim (split_on CHR '','' s))
      | MetaUndefined \<Rightarrow> filter (\<lambda>x. x \<noteq> []) (map trim (split_on CHR '','' [])))"

definition needsFilterCount :: "string list \<Rightarrow> bool" where
  "needsFilterCount parts = (''filterCount'' \<in> set parts \<or> ''*'' \<in> set parts)"

definition needsTotalCount :: "string list \<Rightarrow> bool" where
  "needsTotalCount parts = (''totalCount'' \<in> set parts \<or> ''*'' \<in> set parts)"

text \<open>\<^verbatim>\<open>Number(x || 0)\<close> on a count column.\<close>

fun count_number :: "jsval \<Rightarrow> int" where
  "count_number (JNum n) = n"
| "count_number v = 0"

text \<open>The response envelope \<^verbatim>\<open>{data, meta?}\<close>; \<open>meta\<close> is an object with integer properties.\<close>

record Response =
  resp_data :: "jsrecord list"
  resp_meta :: "(string \<times> int) list option"

text \<open>The queries a run sends to the backend: the separate count, and the main query with or without the windowed count column.\<close>

datatype BackendQuery = CountAllQuery | MainQuery bool

record SqlRun =
  response :: Response
  queries :: "BackendQuery list"

text \<open>
  sqlExecutor from "Parse meta requirements" to the return, for a query without joins.
  The backend is read on the table's rows, given in the requested order: \<open>matches\<close> is the
  compiled WHERE clause and \<open>project\<close> the select list applied to a row;
  \<^verbatim>\<open>COUNT(*) OVER()\<close> counts the rows of the result set before OFFSET and LIMIT.
\<close>

definition sqlExecutor ::
  "MetaOption \<Rightarrow> int option \<Rightarrow> int option \<Rightarrow> (jsrecord \<Rightarrow> bool) \<Rightarrow> (jsrecord \<Rightarrow> jsrecord) \<Rightarrow>
   jsrecord list \<Rightarrow> error + SqlRun" where
  "sqlExecutor meta page lim matches project tableRows =
     (let parts = metaParts meta;
          matching = filter matches tableRows;
          windowed =
            map (\<lambda>r. if needsFilterCount parts
                      then set_prop ''__filter_count__'' (JNum (int (length matching))) (project r)
                      else project r) matching
      in case paginate (convertPagination page lim) windowed of
           Inl e \<Rightarrow> Inl e
         | Inr results \<Rightarrow>
             (let totalCount = (if needsTotalCount parts then int (length tableRows) else 0);
                  filterCount =
                    (if needsFilterCount parts \<and> results \<noteq> []
                     then count_number (get_prop (hd results) ''__filter_count__'') else 0);
                  rows =
                    (if needsFilterCount parts \<and> results \<noteq> []
                     then map (delete_prop ''__filter_count__'') results else results)
              in Inr \<lparr> response = \<lparr> resp_data = rows,
                         resp_meta =
                           (if parts \<noteq> [] then
                              Some ((if needsTotalCount parts then [(''totalCount'', totalCount)] else []) @
                                    (if needsFilterCount parts then [(''filterCount'', filterCount)] else []))
                            else None) \<rparr>,
                       queries =
                         (if needsTotalCount parts then [CountAllQuery] else []) @
                         [MainQuery (needsFilterCount parts)] \<rparr>))"

text \<open>
  mongoExecutor: the same pagination, then \<^verbatim>\<open>return { data: results }\<close>. It never reads
  \<^verbatim>\<open>options.meta\<close>. \<open>docs\<close> are the matching documents in the requested order.
\<close>

definition mongoExecutor :: "MetaOption \<Rightarrow> int option \<Rightarrow> int option \<Rightarrow> jsrecord list \<Rightarrow> error + Response" where
  "mongoExecutor meta page lim docs =
     (case paginate (convertPagination page lim) docs of
        Inl e \<Rightarrow> Inl e
      | Inr results \<Rightarrow> Inr \<lparr> resp_data = results, resp_meta = None \<rparr>)"

text \<open>Twelve rows \<open>{id: 1}\<close> to \<open>{id: 12}\<close> (scenario D).\<close>

definition rows12 :: "jsrecord list" where
  "rows12 = map (\<lambda>i. [(''id'', JNum i)]) [1, 2, 3, 4, 5, 6, 7, 8, 9, 10, 11, 12]"

subsection \<open>Field expansion (expandFieldsMongo)\<close>

datatype Cardinality = One | Many

text \<open>
  The entries of the result's \<^verbatim>\<open>relations\<close> array; the fields carry the prefix \<open>e_\<close>
  (\<open>propertyName\<close> is a field of \<open>RelationMeta\<close> already), and the array itself is
  \<open>expandedRelations\<close>.
\<close>

record ExpandedRelation =
  e_propertyName :: string
  e_targetTable :: string
  e_localField :: string
  e_foreignField :: string
  e_type :: Cardinality
  e_nestedFields :: "string list"

record ExpandedFields =
  scalarFields :: "string list"
  expandedRelations :: "ExpandedRelation list"

text \<open>\<^verbatim>\<open>fieldsByRelation: Map<string, string[]>\<close>, its entries in insertion order.\<close>

type_synonym FieldMap = "(string \<times> string list) list"

text \<open>\<^verbatim>\<open>if (!m.has(k)) m.set(k, []); m.get(k).push(v)\<close>\<close>

definition map_push :: "string \<Rightarrow> string \<Rightarrow> FieldMap \<Rightarrow> FieldMap" where
  "map_push k v m =
     (case map_of m k of
        None \<Rightarrow> m @ [(k, [v])]
      | Some vs \<Rightarrow> AList.update k (vs @ [v]) m)"

text \<open>\<^verbatim>\<open>parts.join('.')\<close>\<close>

fun join_dot :: "string list \<Rightarrow> string" where
  "join_dot [] = []"
| "join_dot [p] = p"
| "join_dot (p # q # ps) = p @ ''.'' @ join_dot (q # ps)"

text \<open>The body of the loop that groups the requested fields by their first segment.\<close>

definition groupField :: "FieldMap \<Rightarrow> string \<Rightarrow> FieldMap" where
  "groupField m field =
     (if field = ''*'' \<or> \<not> str_includes field ''.'' then map_push [] field m
      else (case split_on CHR ''.'' field of
              [] \<Rightarrow> m
            | relationName # rest \<Rightarrow> map_push relationName (join_dot rest) m))"

text \<open>\<^verbatim>\<open>if (!xs.includes(x)) xs.push(x)\<close>\<close>

definition push_new :: "string list \<Rightarrow> string \<Rightarrow> string list" where
  "push_new xs x = (if x \<in> set xs then xs else xs @ [x])"

text \<open>\<^verbatim>\<open>if (!fieldsByRelation.has(rel.propertyName)) fieldsByRelation.set(rel.propertyName, ['id'])\<close>\<close>

definition addIdOnly :: "FieldMap \<Rightarrow> RelationMeta \<Rightarrow> FieldMap" where
  "addIdOnly m rel =
     (if map_of m (propertyName rel) \<noteq> None then m else m @ [(propertyName rel, [''id''])])"

text \<open>\<^verbatim>\<open>if (baseMeta.columns) for ...\<close>: a missing array is skipped.\<close>

definition list_or_empty :: "'a list option \<Rightarrow> 'a list" where
  "list_or_empty x = (case x of None \<Rightarrow> [] | Some xs \<Rightarrow> xs)"

text \<open>The body of the loop over the root-level fields.\<close>

definition expandRootField ::
  "TableMetadata \<Rightarrow> string list \<times> FieldMap \<Rightarrow> string \<Rightarrow> string list \<times> FieldMap" where
  "expandRootField baseMeta st field =
     (case st of (scalars, byRelation) \<Rightarrow>
        if field = ''*'' then
          (foldl (\<lambda>sf col. push_new sf (name col)) scalars (list_or_empty (columns baseMeta)),
           foldl addIdOnly byRelation (list_or_empty (relations baseMeta)))
        else (push_new scalars field, byRelation))"

text \<open>
  The body of the loop over \<^verbatim>\<open>fieldsByRelation.entries()\<close>; an unknown relation name is
  warned about and skipped.
\<close>

definition expandRelation ::
  "TableMetadata \<Rightarrow> ExpandedRelation list \<Rightarrow> string \<times> string list \<Rightarrow> ExpandedRelation list" where
  "expandRelation baseMeta acc entry =
     (case entry of (relationName, nestedFields) \<Rightarrow>
        if relationName = [] then acc
        else (case find (\<lambda>r. propertyName r = relationName) (list_or_empty (relations baseMeta)) of
                None \<Rightarrow> acc
              | Some rel \<Rightarrow>
                  acc @ [\<lparr> e_propertyName = relationName,
                           e_targetTable = targetTableName rel,
                           e_localField = relationName,
                           e_foreignField = ''_id'',
                           e_type = (if rtype rel = OneToMany \<or> rtype rel = ManyToMany then Many else One),
                           e_nestedFields = nestedFields \<rparr>]))"

text \<open>
  \<open>metadataCache\<close> is the optional injected service (\<open>None\<close> when absent), read through
  its \<^verbatim>\<open>getTableMetadata\<close>; \<open>fieldPaths\<close> is the argument \<^verbatim>\<open>fields\<close>.
\<close>

definition expandFieldsMongo ::
  "(string \<Rightarrow> TableMetadata option) option \<Rightarrow> string \<Rightarrow> string list \<Rightarrow> ExpandedFields" where
  "expandFieldsMongo metadataCache tableName fieldPaths =
     (case metadataCache of
        None \<Rightarrow> \<lparr> scalarFields = [], expandedRelations = [] \<rparr>
      | Some getTableMetadata \<Rightarrow>
          (case getTableMetadata tableName of
             None \<Rightarrow> \<lparr> scalarFields = [], expandedRelations = [] \<rparr>
           | Some baseMeta \<Rightarrow>
               (let fieldsByRelation = foldl groupField [] fieldPaths;
                    rootFields = list_or_empty (map_of fieldsByRelation []);
                    st = foldl (expandRootField baseMeta) ([], fieldsByRelation) rootFields
                in \<lparr> scalarFields = fst st,
                     expandedRelations = foldl (expandRelation baseMeta) [] (snd st) \<rparr>)))"

text \<open>The entry the expansion builds for a relation requested with the given nested fields.\<close>

definition relationEntry :: "string list \<Rightarrow> RelationMeta \<Rightarrow> ExpandedRelation" where
  "relationEntry nested rel =
     \<lparr> e_propertyName = propertyName rel,
       e_targetTable = targetTableName rel,
       e_localField = propertyName rel,
       e_foreignField = ''_id'',
       e_type = (if rtype rel = OneToMany \<or> rtype rel = ManyToMany then Many else One),
       e_nestedFields = nested \<rparr>"

definition scenarioCache :: "string \<Rightarrow> TableMetadata option" where
  "scenarioCache tableName = lookupTableMeta scenarioMetadata tableName"

section \<open>Default hooks: timestamps and junction tables\<close>

text \<open>\<^verbatim>\<open>this.knexInstance.raw('CURRENT_TIMESTAMP')\<close> (and \<^verbatim>\<open>knexInstance.fn.now()\<close>).\<close>

definition CURRENT_TIMESTAMP :: jsval where
  "CURRENT_TIMESTAMP = JRaw ''CURRENT_TIMESTAMP''"

text \<open>
  knex.service.ts, isJunctionTable. \<^verbatim>\<open>Array.from(metadata.tables?.values?.() || [])\<close> is
  always an array, so the alternatives after \<^verbatim>\<open>||\<close> are never taken: only the Map is
  searched.
\<close>

definition isJunctionTable :: "Metadata option \<Rightarrow> string \<Rightarrow> bool" where
  "isJunctionTable metadata tableName =
     (case metadata of
        None \<Rightarrow> False
      | Some md \<Rightarrow>
          list_ex
            (\<lambda>table.
               case relations table of
                 None \<Rightarrow> False
               | Some rels \<Rightarrow>
                   list_ex (\<lambda>rel. rtype rel = ManyToMany \<and> junctionTableName rel = Some tableName) rels)
            (case tables md of None \<Rightarrow> [] | Some m \<Rightarrow> map snd m))"

text \<open>The payload of an insert: one record or an array of records (\<^verbatim>\<open>Array.isArray(data)\<close>).\<close>

datatype payload = Single jsrecord | Batch "jsrecord list"

definition timestampKeys :: "string list" where
  "timestampKeys = [''createdAt'', ''updatedAt'', ''created_at'', ''updated_at'', ''CreatedAt'', ''UpdatedAt'']"

text \<open>
  \<^verbatim>\<open>const { createdAt, updatedAt, created_at, updated_at, CreatedAt, UpdatedAt, ...cleanRecord } = record;
  return { ...cleanRecord, createdAt: now, updatedAt: now };\<close>
\<close>

definition stampRecord :: "jsrecord \<Rightarrow> jsrecord" where
  "stampRecord record =
     (let cleanRecord = filter (\<lambda>kv. fst kv \<notin> set timestampKeys) record
      in set_prop ''updatedAt'' CURRENT_TIMESTAMP (set_prop ''createdAt'' CURRENT_TIMESTAMP cleanRecord))"

text \<open>knex.service.ts, insertWithCascade: the table-name pattern and the timestamps it adds.\<close>

definition isJunctionTableByName :: "string \<Rightarrow> bool" where
  "isJunctionTableByName tableName =
     (str_includes tableName ''_'' \<and>
      (str_includes tableName ''_definition_'' \<or>
       str_includes tableName ''_methods_'' \<or>
       str_includes tableName ''_routes_'' \<or>
       str_includes tableName ''_permissions_''))"

definition insertWithCascade_stamp :: "string \<Rightarrow> jsrecord \<Rightarrow> jsrecord" where
  "insertWithCascade_stamp tableName record =
     (if \<not> isJunctionTableByName tableName then
        (let d1 = (if get_prop record ''createdAt'' = JUndef
                   then set_prop ''createdAt'' CURRENT_TIMESTAMP record else record)
         in if get_prop d1 ''updatedAt'' = JUndef
            then set_prop ''updatedAt'' CURRENT_TIMESTAMP d1 else d1)
      else record)"

section \<open>Many-to-many synchronisation (knex.service.ts: syncManyToManyRelations)\<close>

text \<open>
  The database: the rows of every table. A statement sent through \<^verbatim>\<open>this.knexInstance(table)\<close>
  runs on the connection pool outside any transaction, so its effect stays when a later
  statement fails: the state is threaded through, and a failure returns the state reached.
\<close>

type_synonym database = "string \<Rightarrow> jsrecord list"

text \<open>\<^verbatim>\<open>knex(table).where(column, v).delete()\<close>\<close>

definition deleteWhere :: "string \<Rightarrow> string \<Rightarrow> jsval \<Rightarrow> database \<Rightarrow> database" where
  "deleteWhere table column v db = db(table := filter (\<lambda>row. get_prop row column \<noteq> v) (db table))"

text \<open>
  \<^verbatim>\<open>knex(table).insert(rows)\<close> is a parameter: the backend may reject the rows (a missing
  target, a duplicate key). \<open>insertRows\<close> is the backend that accepts everything.
\<close>

type_synonym inserter = "string \<Rightarrow> jsrecord list \<Rightarrow> database \<Rightarrow> error + database"

definition insertRows :: inserter where
  "insertRows table rows db = Inr (db(table := db table @ rows))"

definition rejectRows :: inserter where
  "rejectRows table rows db = Inl (Error ''insert rejected'')"

text \<open>\<^verbatim>\<open>typeof item === 'object' ? item.id : item\<close>; reading \<^verbatim>\<open>id\<close> of null throws.\<close>

definition itemId :: "jsval \<Rightarrow> error + jsval" where
  "itemId item =
     (if typeof_object item then
        (if item = JNull then Inl (Error ''TypeError'') else Inr (prop_id item))
      else Inr item)"

fun itemIds :: "jsval list \<Rightarrow> error + jsval list" where
  "itemIds [] = Inr []"
| "itemIds (item # items) =
     (case itemId item of
        Inl e \<Rightarrow> Inl e
      | Inr i \<Rightarrow> (case itemIds items of Inl e \<Rightarrow> Inl e | Inr is \<Rightarrow> Inr (i # is)))"

text \<open>
  \<^verbatim>\<open>Array.isArray(v) ? v.map(...).filter((id) => id != null) : []\<close>
\<close>

definition newIdsOf :: "jsval \<Rightarrow> error + jsval list" where
  "newIdsOf v =
     (case v of
        JArr items \<Rightarrow>
          (case itemIds items of
             Inl e \<Rightarrow> Inl e
           | Inr ids \<Rightarrow> Inr (filter (\<lambda>i. i \<noteq> JNull \<and> i \<noteq> JUndef) ids))
      | _ \<Rightarrow> Inr [])"

text \<open>\<^verbatim>\<open>{ [sourceColumn]: data.id, [targetColumn]: targetId }\<close>\<close>

definition junctionRow :: "string \<Rightarrow> string \<Rightarrow> jsval \<Rightarrow> jsval \<Rightarrow> jsrecord" where
  "junctionRow sourceColumn targetColumn ownerId targetId =
     set_prop targetColumn targetId [(sourceColumn, ownerId)]"

text \<open>The three \<^verbatim>\<open>continue\<close> guards of the loop: the relations the loop acts on.\<close>

definition syncApplies :: "jsrecord \<Rightarrow> RelationMeta \<Rightarrow> bool" where
  "syncApplies data relation =
     (rtype relation = ManyToMany \<and> has_key (propertyName relation) data \<and>
      truthy_str (junctionTableName relation) \<and> truthy_str (junctionSourceColumn relation) \<and>
      truthy_str (junctionTargetColumn relation))"

text \<open>
  The loop over the relations. The result is the error thrown, if any, and the database
  as the statements executed so far left it.
\<close>

fun syncRelations ::
  "inserter \<Rightarrow> jsrecord \<Rightarrow> RelationMeta list \<Rightarrow> database \<Rightarrow> error option \<times> database" where
  "syncRelations ins data [] db = (None, db)"
| "syncRelations ins data (relation # rest) db =
     (if rtype relation \<noteq> ManyToMany then syncRelations ins data rest db
      else if \<not> has_key (propertyName relation) data then syncRelations ins data rest db
      else if \<not> truthy_str (junctionTableName relation) \<or>
              \<not> truthy_str (junctionSourceColumn relation) \<or>
              \<not> truthy_str (junctionTargetColumn relation) then syncRelations ins data rest db
      else
        (let junctionTable = the (junctionTableName relation);
             sourceColumn = the (junctionSourceColumn relation);
             targetColumn = the (junctionTargetColumn relation)
         in case newIdsOf (get_prop data (propertyName relation)) of
              Inl e \<Rightarrow> (Some e, db)
            | Inr newIds \<Rightarrow>
                (let db1 = deleteWhere junctionTable sourceColumn (get_prop data ''id'') db
                 in if newIds \<noteq> [] then
                      (case ins junctionTable
                              (map (junctionRow sourceColumn targetColumn (get_prop data ''id'')) newIds) db1 of
                         Inl e \<Rightarrow> (Some e, db1)
                       | Inr db2 \<Rightarrow> syncRelations ins data rest db2)
                    else syncRelations ins data rest db1)))"

definition syncManyToManyRelations ::
  "inserter \<Rightarrow> Metadata option \<Rightarrow> string \<Rightarrow> jsrecord \<Rightarrow> database \<Rightarrow> error option \<times> database" where
  "syncManyToManyRelations ins metadata tableName data db =
     (if tableName = [] \<or> \<not> truthy (get_prop data ''id'') then (None, db)
      else case metadata of
        None \<Rightarrow> (Some (Error ''TypeError''), db)
      | Some md \<Rightarrow>
          (case lookupTableMeta md tableName of
             None \<Rightarrow> (None, db)
           | Some tableMeta \<Rightarrow>
               (case relations tableMeta of
                  None \<Rightarrow> (None, db)
                | Some rels \<Rightarrow> syncRelations ins data rels db)))"


text \<open>The rows of a junction table that belong to an owner, and the other rows.\<close>

definition ownerRows :: "database \<Rightarrow> string \<Rightarrow> string \<Rightarrow> jsval \<Rightarrow> jsrecord list" where
  "ownerRows db table sourceColumn ownerId = filter (\<lambda>row. get_prop row sourceColumn = ownerId) (db table)"

definition otherRows :: "database \<Rightarrow> string \<Rightarrow> string \<Rightarrow> jsval \<Rightarrow> jsrecord list" where
  "otherRows db table sourceColumn ownerId = filter (\<lambda>row. get_prop row sourceColumn \<noteq> ownerId) (db table)"

text \<open>Scenario B: article 1 is tagged 1 and 2, article 7 is tagged 1.\<close>

definition scenarioDb :: database where
  "scenarioDb = (\<lambda>table. [])(''article_tags'' :=
     [[(''articleId'', JNum 1), (''tagId'', JNum 1)],
      [(''articleId'', JNum 1), (''tagId'', JNum 2)],
      [(''articleId'', JNum 7), (''tagId'', JNum 1)]])"

section \<open>Cascade context (hook-registry.ts: registerDefaultHooks)\<close>

text \<open>
  \<^verbatim>\<open>cascadeContextMap: Map<string, any>\<close>, shared by all calls. The first \<open>beforeInsert\<close> and
  \<open>beforeUpdate\<close> handlers collect the array-valued keys of a record payload
  (\<^verbatim>\<open>typeof data === 'object' && !Array.isArray(data)\<close>) and store them under the table name,
  before their first \<^verbatim>\<open>await\<close>.
\<close>

type_synonym cascadeContext = "string \<rightharpoonup> jsval"

fun is_array :: "jsval \<Rightarrow> bool" where
  "is_array (JArr xs) = True"
| "is_array v = False"

definition relationDataOf :: "payload \<Rightarrow> jsrecord" where
  "relationDataOf d =
     (case d of
        Single record \<Rightarrow> filter (\<lambda>kv. is_array (snd kv)) record
      | Batch records \<Rightarrow> [])"

text \<open>\<^verbatim>\<open>data.id\<close>; an array has no such property.\<close>

definition recordIdOf :: "payload \<Rightarrow> jsval" where
  "recordIdOf d = (case d of Single record \<Rightarrow> get_prop record ''id'' | Batch records \<Rightarrow> JUndef)"

text \<open>\<^verbatim>\<open>cascadeContextMap.set(tableName, relationData)\<close> (beforeInsert)\<close>

definition captureInsert :: "string \<Rightarrow> payload \<Rightarrow> cascadeContext \<Rightarrow> cascadeContext" where
  "captureInsert tableName d ctx = ctx(tableName \<mapsto> JObj (relationDataOf d))"

text \<open>\<^verbatim>\<open>cascadeContextMap.set(tableName, { relationData: originalRelationData, recordId })\<close> (beforeUpdate)\<close>

definition updateEntry :: "payload \<Rightarrow> jsval" where
  "updateEntry d = JObj [(''relationData'', JObj (relationDataOf d)), (''recordId'', recordIdOf d)]"

definition captureUpdate :: "string \<Rightarrow> payload \<Rightarrow> cascadeContext \<Rightarrow> cascadeContext" where
  "captureUpdate tableName d ctx = ctx(tableName \<mapsto> updateEntry d)"

text \<open>
  The \<open>afterUpdate\<close> handler: \<^verbatim>\<open>const context = cascadeContextMap.get(tableName); if (!context) return
  result; const { recordId } = context; await this.handleCascadeRelations(tableName, recordId,
  cascadeContextMap)\<close>. \<^verbatim>\<open>handleCascadeRelations\<close> is outside the sources; the model gives the
  arguments it is called with: the record id read from the entry, and the entry it finds.
\<close>

definition afterUpdateCascadeArgs :: "string \<Rightarrow> cascadeContext \<Rightarrow> (jsval \<times> jsval) option" where
  "afterUpdateCascadeArgs tableName ctx =
     (case ctx tableName of
        None \<Rightarrow> None
      | Some context \<Rightarrow>
          if \<not> truthy context then None
          else Some (get_prop (object_entries context) ''recordId'', context))"

text \<open>Two updates of different articles, each with its own tags.\<close>

definition updateA :: payload where
  "updateA = Single [(''id'', JNum 1), (''tags'', JArr [JObj [(''id'', JNum 1)]])]"

definition updateB :: payload where
  "updateB = Single [(''id'', JNum 2), (''tags'', JArr [JObj [(''id'', JNum 9)]])]"

section \<open>The wrapped query builder (knex.service.ts: wrapQueryBuilder)\<close>

text \<open>
  The operations that enclose the hook chains. \<open>originalInsert\<close>, \<open>originalUpdate\<close>,
  \<open>originalDelete\<close> and \<open>originalThen\<close> are the query builder's own methods, each taken
  together with the \<^verbatim>\<open>await\<close> of what it returns: statements that act on the state and may
  fail. \<open>tableName\<close> is \<^verbatim>\<open>qb._single?.table\<close>.
\<close>

type_synonym 's statement = "jsval \<Rightarrow> 's \<Rightarrow> (error + jsval) \<times> 's"

text \<open>
  \<^verbatim>\<open>const processedData = await self.runHooks('beforeInsert', tableName, data);
  const result = await originalInsert.call(this, processedData, ...rest);
  return self.runHooks('afterInsert', tableName, result);\<close>
\<close>

definition qb_insert :: "'s HookRegistry \<Rightarrow> 's statement \<Rightarrow> jsval \<Rightarrow> jsval \<Rightarrow> 's \<Rightarrow> (error + jsval) \<times> 's" where
  "qb_insert hooks originalInsert tableName data s =
     (case runHooks hooks beforeInsert [tableName, data] s of
        (Inl e, s1) \<Rightarrow> (Inl e, s1)
      | (Inr processedData, s1) \<Rightarrow>
          (case originalInsert processedData s1 of
             (Inl e, s2) \<Rightarrow> (Inl e, s2)
           | (Inr result, s2) \<Rightarrow> runHooks hooks afterInsert [tableName, result] s2))"

definition qb_update :: "'s HookRegistry \<Rightarrow> 's statement \<Rightarrow> jsval \<Rightarrow> jsval \<Rightarrow> 's \<Rightarrow> (error + jsval) \<times> 's" where
  "qb_update hooks originalUpdate tableName data s =
     (case runHooks hooks beforeUpdate [tableName, data] s of
        (Inl e, s1) \<Rightarrow> (Inl e, s1)
      | (Inr processedData, s1) \<Rightarrow>
          (case originalUpdate processedData s1 of
             (Inl e, s2) \<Rightarrow> (Inl e, s2)
           | (Inr result, s2) \<Rightarrow> runHooks hooks afterUpdate [tableName, result] s2))"

text \<open>
  \<^verbatim>\<open>await self.runHooks('beforeDelete', tableName, args);
  const result = await originalDelete.call(this, ...args);
  return self.runHooks('afterDelete', tableName, result);\<close>
  The value of the \<open>beforeDelete\<close> chain is not used; \<open>args\<close> is the argument array.
\<close>

definition qb_delete :: "'s HookRegistry \<Rightarrow> 's statement \<Rightarrow> jsval \<Rightarrow> jsval list \<Rightarrow> 's \<Rightarrow> (error + jsval) \<times> 's" where
  "qb_delete hooks originalDelete tableName args s =
     (case runHooks hooks beforeDelete [tableName, JArr args] s of
        (Inl e, s1) \<Rightarrow> (Inl e, s1)
      | (Inr unused, s1) \<Rightarrow>
          (case originalDelete (JArr args) s1 of
             (Inl e, s2) \<Rightarrow> (Inl e, s2)
           | (Inr result, s2) \<Rightarrow> runHooks hooks afterDelete [tableName, result] s2))"

text \<open>
  \<^verbatim>\<open>qb.then = function(onFulfilled, onRejected) {
    self.runHooks('beforeSelect', this, tableName);
    return originalThen.call(this, async (result) => {
      let processedResult = await self.runHooks('afterSelect', tableName, result); ...
      return onFulfilled ? onFulfilled(processedResult) : processedResult;
    }, onRejected);\<close>
  The \<open>beforeSelect\<close> chain is started and not awaited: neither its value nor its
  rejection reaches the caller. The model runs its handlers (for their effects) before the
  query, which is when the first of them runs, and drops the outcome. \<open>qb\<close> is the builder
  passed as first argument; the builder has no joined relations, so the result is not
  re-nested. The value is what \<open>onFulfilled\<close> receives.
\<close>

definition qb_then :: "'s HookRegistry \<Rightarrow> ('s \<Rightarrow> (error + jsval) \<times> 's) \<Rightarrow> jsval \<Rightarrow> jsval \<Rightarrow> 's \<Rightarrow> (error + jsval) \<times> 's" where
  "qb_then hooks originalThen qb tableName s =
     (case runHooks hooks beforeSelect [qb, tableName] s of
        (dropped, s1) \<Rightarrow>
          (case originalThen s1 of
             (Inl e, s2) \<Rightarrow> (Inl e, s2)
           | (Inr result, s2) \<Rightarrow> runHooks hooks afterSelect [tableName, result] s2))"

text \<open>A statement that logs its name and returns one row.\<close>

definition logStatement :: "string \<Rightarrow> string list statement" where
  "logStatement tag = (\<lambda>d s. (Inr (JArr [JObj [(''id'', JNum 1)]]), s @ [tag]))"

section \<open>The default beforeInsert chain (hook-registry.ts: registerDefaultHooks)\<close>

text \<open>
  The four handlers \<^verbatim>\<open>registerDefaultHooks\<close> adds for \<open>beforeInsert\<close>, on the untyped payload
  (\<^verbatim>\<open>data: any\<close>) the chain hands from one to the next. (knex.service.ts registers a variant
  of its own, with the same last handler.) What the chain returns is what
  \<open>qb_insert\<close> passes to the insert statement.

  \<^verbatim>\<open>{ ...v }\<close> and the rest of a destructuring take the own enumerable properties of a
  value: none for a number, a boolean, null or undefined, the elements of an array and
  the characters of a string under their indices. A raw expression is never a payload;
  its properties are not modelled.
\<close>

fun spread :: "jsval \<Rightarrow> jsrecord" where
  "spread (JObj kvs) = kvs"
| "spread (JArr xs) = zip (map index_key [0..<length xs]) xs"
| "spread (JStr s) = zip (map index_key [0..<length s]) (map (\<lambda>c. JStr [c]) s)"
| "spread v = []"

text \<open>
  A handler is applied to the argument array (\<^verbatim>\<open>hook.apply(null, args)\<close>) and reads its
  parameters by position; \<^verbatim>\<open>tableName: string\<close> is the first, and a missing one is falsy
  like the empty string.
\<close>

definition nth_arg :: "nat \<Rightarrow> jsval list \<Rightarrow> jsval" where
  "nth_arg n args = (if n < length args then args ! n else JUndef)"

fun table_of :: "jsval \<Rightarrow> string" where
  "table_of (JStr s) = s"
| "table_of v = []"

text \<open>The state the handlers act on: the database and the shared \<^verbatim>\<open>cascadeContextMap\<close>.\<close>

record HookWorld =
  world_db :: database
  world_context :: cascadeContext

text \<open>
  \<^verbatim>\<open>const relationData = {};
  if (typeof data === 'object' && !Array.isArray(data)) {
    for (const key in data) { if (Array.isArray(data[key])) relationData[key] = data[key]; } }\<close>
  (\<^verbatim>\<open>for ... in\<close> over null does not iterate.)
\<close>

definition relationData :: "jsval \<Rightarrow> jsrecord" where
  "relationData data =
     (case data of
        JObj record \<Rightarrow> filter (\<lambda>kv. is_array (snd kv)) record
      | _ \<Rightarrow> [])"

text \<open>
  \<open>syncManyToManyRelations\<close> and \<open>transformRelationsToFK\<close> on any payload. The first reads
  \<^verbatim>\<open>data.id\<close> once the table name is truthy: a TypeError on null and undefined, undefined on
  an array or a primitive. The second returns the payload itself from its guards and
  works on \<^verbatim>\<open>{ ...data }\<close> after them.
\<close>

definition syncManyToManyRelations_any ::
  "inserter \<Rightarrow> Metadata option \<Rightarrow> string \<Rightarrow> jsval \<Rightarrow> database \<Rightarrow> error option \<times> database" where
  "syncManyToManyRelations_any ins metadata tableName data db =
     (if tableName = [] then (None, db)
      else case data of
        JObj record \<Rightarrow> syncManyToManyRelations ins metadata tableName record db
      | JNull \<Rightarrow> (Some (Error ''TypeError''), db)
      | JUndef \<Rightarrow> (Some (Error ''TypeError''), db)
      | _ \<Rightarrow> (None, db))"

definition transformRelationsToFK_any :: "Metadata option \<Rightarrow> string \<Rightarrow> jsval \<Rightarrow> error + jsval" where
  "transformRelationsToFK_any metadata tableName data =
     (if tableName = [] then Inr data
      else case metadata of
        None \<Rightarrow> Inl (Error ''TypeError'')
      | Some md \<Rightarrow>
          (case lookupTableMeta md tableName of
             None \<Rightarrow> Inr data
           | Some tableMeta \<Rightarrow>
               (case relations tableMeta of
                  None \<Rightarrow> Inr data
                | Some rels \<Rightarrow> Inr (JObj (foldl toManyStep (foldl toOneStep (spread data) rels) rels)))))"

text \<open>
  First handler: \<^verbatim>\<open>cascadeContextMap.set(tableName, relationData);
  await this.syncManyToManyRelations(tableName, data);
  return this.transformRelationsToFK(tableName, data);\<close>
\<close>

definition captureSyncTransform :: "inserter \<Rightarrow> Metadata option \<Rightarrow> HookWorld handler" where
  "captureSyncTransform ins metadata args w =
     (let tableName = table_of (nth_arg 0 args);
          data = nth_arg 1 args;
          w1 = w\<lparr> world_context := (world_context w)(tableName \<mapsto> JObj (relationData data)) \<rparr>
      in case syncManyToManyRelations_any ins metadata tableName data (world_db w1) of
           (Some e, db1) \<Rightarrow> (Inl e, w1\<lparr> world_db := db1 \<rparr>)
         | (None, db1) \<Rightarrow> (transformRelationsToFK_any metadata tableName data, w1\<lparr> world_db := db1 \<rparr>))"

text \<open>
  knex.service.ts, stripUnknownColumns: the valid columns are the declared columns and the
  truthy \<^verbatim>\<open>foreignKeyColumn\<close> of every relation; every other key of \<^verbatim>\<open>{ ...data }\<close> is deleted.
\<close>

definition validColumns :: "TableMetadata \<Rightarrow> string list" where
  "validColumns tableMeta =
     map name (list_or_empty (columns tableMeta)) @
     concat (map (\<lambda>rel. case foreignKeyColumn rel of
                            None \<Rightarrow> []
                          | Some c \<Rightarrow> if c = [] then [] else [c])
                 (list_or_empty (relations tableMeta)))"

definition stripUnknownColumns :: "Metadata option \<Rightarrow> string \<Rightarrow> jsval \<Rightarrow> error + jsval" where
  "stripUnknownColumns metadata tableName data =
     (if tableName = [] then Inr data
      else case metadata of
        None \<Rightarrow> Inl (Error ''TypeError'')
      | Some md \<Rightarrow>
          (case lookupTableMeta md tableName of
             None \<Rightarrow> Inr data
           | Some tableMeta \<Rightarrow>
               (case columns tableMeta of
                  None \<Rightarrow> Inr data
                | Some cols \<Rightarrow>
                    Inr (JObj (filter (\<lambda>kv. fst kv \<in> set (validColumns tableMeta)) (spread data))))))"

text \<open>
  Third handler: \<^verbatim>\<open>const tableMetadata = await this.metadataCacheService.getTableMetadata(tableName);
  if (!tableMetadata) return data;
  return stringifyRecordJsonFields(data, tableMetadata);\<close>
  Neither \<^verbatim>\<open>getTableMetadata\<close> nor \<^verbatim>\<open>stringifyRecordJsonFields\<close> (utils/json-parser) is part
  of the sources: both are parameters.
\<close>

definition stringifyJsonFields ::
  "(string \<Rightarrow> TableMetadata option) \<Rightarrow> (jsval \<Rightarrow> TableMetadata \<Rightarrow> jsval) \<Rightarrow> string \<Rightarrow> jsval \<Rightarrow> jsval" where
  "stringifyJsonFields getTableMetadata stringifyRecordJsonFields tableName data =
     (case getTableMetadata tableName of
        None \<Rightarrow> data
      | Some tableMetadata \<Rightarrow> stringifyRecordJsonFields data tableMetadata)"

text \<open>
  Last handler, on any payload; its \<^verbatim>\<open>isJunctionTable\<close> is the function of knex.service.ts,
  handed to the registry by its constructor. Destructuring null or undefined throws a
  TypeError; each element of an array is destructured on its own.
\<close>

definition stampValue :: "jsval \<Rightarrow> error + jsval" where
  "stampValue record =
     (if record = JNull \<or> record = JUndef then Inl (Error ''TypeError'')
      else Inr (JObj (stampRecord (spread record))))"

fun stampAll :: "jsval list \<Rightarrow> error + jsval list" where
  "stampAll [] = Inr []"
| "stampAll (record # records) =
     (case stampValue record of
        Inl e \<Rightarrow> Inl e
      | Inr r \<Rightarrow> (case stampAll records of Inl e \<Rightarrow> Inl e | Inr rs \<Rightarrow> Inr (r # rs)))"

definition timestampInsert :: "Metadata option \<Rightarrow> string \<Rightarrow> jsval \<Rightarrow> error + jsval" where
  "timestampInsert metadata tableName data =
     (if isJunctionTable metadata tableName then Inr data
      else case data of
        JArr records \<Rightarrow> (case stampAll records of Inl e \<Rightarrow> Inl e | Inr rs \<Rightarrow> Inr (JArr rs))
      | _ \<Rightarrow> stampValue data)"

text \<open>A handler without effect on the state, applied to \<^verbatim>\<open>(tableName, data)\<close>.\<close>

definition pureHandler :: "(string \<Rightarrow> jsval \<Rightarrow> error + jsval) \<Rightarrow> 's handler" where
  "pureHandler f args s = (f (table_of (nth_arg 0 args)) (nth_arg 1 args), s)"

text \<open>The \<open>beforeInsert\<close> registrations of \<^verbatim>\<open>registerDefaultHooks\<close>, in their order.\<close>

definition registerDefaultHooks ::
  "inserter \<Rightarrow> Metadata option \<Rightarrow> (string \<Rightarrow> TableMetadata option) \<Rightarrow> (jsval \<Rightarrow> TableMetadata \<Rightarrow> jsval) \<Rightarrow>
   HookWorld HookRegistry \<Rightarrow> HookWorld HookRegistry" where
  "registerDefaultHooks ins metadata getTableMetadata stringifyRecordJsonFields hooks =
     addHook beforeInsert (pureHandler (timestampInsert metadata))
       (addHook beforeInsert
          (pureHandler (\<lambda>tableName data.
             Inr (stringifyJsonFields getTableMetadata stringifyRecordJsonFields tableName data)))
          (addHook beforeInsert (pureHandler (stripUnknownColumns metadata))
             (addHook beforeInsert (captureSyncTransform ins metadata) hooks)))"

text \<open>
  Modelled from the spec: a junction table is the auxiliary table realising a many-to-many
  relation. It is declared when some table of the metadata, in the Map or in the list,
  has a many-to-many relation that names it.
\<close>

definition declaredJunction :: "Metadata \<Rightarrow> string \<Rightarrow> bool" where
  "declaredJunction md tableName =
     list_ex
       (\<lambda>table.
          case relations table of
            None \<Rightarrow> False
          | Some rels \<Rightarrow>
              list_ex (\<lambda>rel. rtype rel = ManyToMany \<and> junctionTableName rel = Some tableName) rels)
       ((case tables md of None \<Rightarrow> [] | Some m \<Rightarrow> map snd m) @
        (case tablesList md of None \<Rightarrow> [] | Some l \<Rightarrow> l))"

text \<open>An encoder for tables without structured columns, and the state before Scenario A.\<close>

definition noJsonFields :: "jsval \<Rightarrow> TableMetadata \<Rightarrow> jsval" where
  "noJsonFields data tableMetadata = data"

definition emptyWorld :: HookWorld where
  "emptyWorld = \<lparr> world_db = (\<lambda>table. []), world_context = Map.empty \<rparr>"

definition scenarioHooks :: "HookWorld HookRegistry" where
  "scenarioHooks = registerDefaultHooks insertRows (Some scenarioMetadata) scenarioCache noJsonFields emptyHooks"

text \<open>The metadata of Scenario A when only the list of tables is filled.\<close>

definition listedMetadata :: Metadata where
  "listedMetadata = \<lparr> tables = None, tablesList = Some [articleMeta] \<rparr>"

section \<open>Sorting in the SQL executor (query-builder.service.ts: sqlExecutor)\<close>


datatype Direction = Asc | Desc

record SortOption =
  sfield :: string
  sdirection :: Direction




definition relationSorts :: "SortOption list option \<Rightarrow> SortOption list" where
  "relationSorts sortOptions =
     (case sortOptions of
        None \<Rightarrow> []
      | Some opts \<Rightarrow> filter (\<lambda>sortOpt. str_includes (sfield sortOpt) ''.'') opts)"













text \<open>
  selectLegacy on the document backend with a custom pipeline:
  \<^verbatim>\<open>if (options.pipeline) {
     const results = await collection.aggregate(options.pipeline).toArray();
     return results.map(doc => this.mongoService['mapDocument'](doc)); }\<close>
  The offset and the limit computed by mongoExecutor are not read on this branch.
  \<^verbatim>\<open>aggregate\<close> and \<^verbatim>\<open>mapDocument\<close> belong to the document service, outside the sources.
\<close>

definition mongoPipelineSelect ::
  "('p \<Rightarrow> 'd list) \<Rightarrow> ('d \<Rightarrow> 'r) \<Rightarrow> 'p \<Rightarrow> int option \<Rightarrow> int option \<Rightarrow> 'r list" where
  "mongoPipelineSelect aggregate mapDocument pipeline page lim =
     (let pagination = convertPagination page lim
      in map mapDocument (aggregate pipeline))"

section \<open>Properties of the hook pipeline\<close>

lemma set_last_arg_twice: "set_last_arg (set_last_arg args a) b = set_last_arg args b"
  by (simp add: set_last_arg_def)

lemma runChain_append:
  "runChain (hs1 @ hs2) args x s =
     (case runChain hs1 args x s of
        (Inl e, s') \<Rightarrow> (Inl e, s')
      | (Inr y, s') \<Rightarrow> runChain hs2 (if hs1 = [] then args else set_last_arg args y) y s')"
proof (induction hs1 arbitrary: args x s)
  case Nil
  show ?case by simp
next
  case (Cons h hs)
  show ?case
  proof (cases "h args s")
    case (Pair res s')
    show ?thesis
    proof (cases res)
      case (Inl e)
      with Pair show ?thesis by simp
    next
      case (Inr r)
      show ?thesis
      proof (cases "hs = []")
        case True
        with Pair Inr show ?thesis by simp
      next
        case False
        with Pair Inr Cons.IH [of "set_last_arg args r" r s'] show ?thesis
          by (simp add: set_last_arg_twice split: prod.splits sum.splits)
      qed
    qed
  qed
qed

text \<open>
  The chain by itself: for every hook event, running it invokes the registered handlers strictly in
  registration order, hands each handler the previous handler's output as its last
  argument, and returns the final handler's output; when a handler throws, no later
  handler is applied (the state is the one the throwing handler left) and the exception
  is the result of the run. With an empty chain the last argument itself is returned.
\<close>

theorem runHooks_registration_order:
  assumes "args \<noteq> []"
  shows "(hooks ev = [] \<longrightarrow> runHooks hooks ev args s = (Inr (last args), s)) \<and>
         (\<forall>y s1. runHooks hooks ev args s = (Inr y, s1) \<longrightarrow>
            runHooks (addHook ev h hooks) ev args s = h (butlast args @ [y]) s1) \<and>
         (\<forall>e s1. runHooks hooks ev args s = (Inl e, s1) \<longrightarrow>
            runHooks (addHook ev h hooks) ev args s = (Inl e, s1)) \<and>
         (\<forall>hs1 hk hs2 y s1 e s2.
            hooks ev = hs1 @ hk # hs2 \<longrightarrow>
            runChain hs1 args (last args) s = (Inr y, s1) \<longrightarrow>
            hk (butlast args @ [y]) s1 = (Inl e, s2) \<longrightarrow>
            runHooks hooks ev args s = (Inl e, s2)) \<and>
         (\<forall>ev'. ev' \<noteq> ev \<longrightarrow> addHook ev h hooks ev' = hooks ev')"
proof (intro conjI allI impI)
  assume "hooks ev = []"
  with assms show "runHooks hooks ev args s = (Inr (last args), s)"
    by (simp add: runHooks_def last_arg_def)
next
  fix y s1
  assume run: "runHooks hooks ev args s = (Inr y, s1)"
  have last_fix: "hooks ev = [] \<Longrightarrow> butlast args @ [y] = args"
    using run assms by (auto simp: runHooks_def last_arg_def)
  from run show "runHooks (addHook ev h hooks) ev args s = h (butlast args @ [y]) s1"
    using assms last_fix
    by (cases "h (butlast args @ [y]) s1"; cases "h args s1")
       (auto simp: runHooks_def addHook_def runChain_append set_last_arg_def split: sum.splits)
next
  fix e s1
  assume "runHooks hooks ev args s = (Inl e, s1)"
  then show "runHooks (addHook ev h hooks) ev args s = (Inl e, s1)"
    by (simp add: runHooks_def addHook_def runChain_append)
next
  fix hs1 hk hs2 y s1 e s2
  assume split: "hooks ev = hs1 @ hk # hs2"
    and pre: "runChain hs1 args (last args) s = (Inr y, s1)"
    and thr: "hk (butlast args @ [y]) s1 = (Inl e, s2)"
  have "hs1 = [] \<Longrightarrow> butlast args @ [y] = args"
    using pre assms by auto
  with split pre thr assms show "runHooks hooks ev args s = (Inl e, s2)"
    by (auto simp: runHooks_def last_arg_def runChain_append set_last_arg_def)
next
  fix ev'
  assume "ev' \<noteq> ev"
  then show "addHook ev h hooks ev' = hooks ev'"
    by (simp add: addHook_def)
qed

theorem runHooks_registration_order_witness:
  "runHooks (addHook beforeInsert (logHook ''a'') emptyHooks) beforeInsert [JStr ''t'', JNum 1] []
      = (Inr (JStr ''a''), [''a'']) \<and>
   runHooks demoHooks beforeInsert [JStr ''t'', JNum 1] [] = (Inl (Error ''boom''), [''a'', ''boom'']) \<and>
   runHooks (addHook beforeInsert (logHook ''c'') demoHooks) beforeInsert [JStr ''t'', JNum 1] []
      = (Inl (Error ''boom''), [''a'', ''boom''])"
proof -
  have ne: "[JStr ''t'', JNum 1] \<noteq> []" by simp
  have e0: "(emptyHooks :: string list HookRegistry) beforeInsert = []" by (simp add: emptyHooks_def)
  note T0 = runHooks_registration_order [OF ne, of emptyHooks beforeInsert "[]" "logHook ''a''"]
  from T0 e0 have r0: "runHooks emptyHooks beforeInsert [JStr ''t'', JNum 1] ([]::string list) = (Inr (JNum 1), [])"
    by simp
  from T0 r0 have r1: "runHooks (addHook beforeInsert (logHook ''a'') emptyHooks) beforeInsert [JStr ''t'', JNum 1] []
      = (Inr (JStr ''a''), [''a''])"
    by (simp add: logHook_def)
  note T1 = runHooks_registration_order [OF ne, of "addHook beforeInsert (logHook ''a'') emptyHooks" beforeInsert "[]" "throwHook ''boom''"]
  from T1 r1 have r2: "runHooks demoHooks beforeInsert [JStr ''t'', JNum 1] [] = (Inl (Error ''boom''), [''a'', ''boom''])"
    by (simp add: demoHooks_def throwHook_def)
  note T2 = runHooks_registration_order [OF ne, of demoHooks beforeInsert "[]" "logHook ''c''"]
  from T2 r2 have r3: "runHooks (addHook beforeInsert (logHook ''c'') demoHooks) beforeInsert [JStr ''t'', JNum 1] []
      = (Inl (Error ''boom''), [''a'', ''boom''])"
    by simp
  from r1 r2 r3 show ?thesis by simp
qed

subsection \<open>The operations around the chains\<close>

lemma qb_insert_before_throws:
  "runHooks hooks beforeInsert [tableName, data] s = (Inl e, s1) \<Longrightarrow>
   qb_insert hooks originalInsert tableName data s = (Inl e, s1)"
  by (simp add: qb_insert_def)

lemma qb_update_before_throws:
  "runHooks hooks beforeUpdate [tableName, data] s = (Inl e, s1) \<Longrightarrow>
   qb_update hooks originalUpdate tableName data s = (Inl e, s1)"
  by (simp add: qb_update_def)

lemma qb_delete_before_throws:
  "runHooks hooks beforeDelete [tableName, JArr args] s = (Inl e, s1) \<Longrightarrow>
   qb_delete hooks originalDelete tableName args s = (Inl e, s1)"
  by (simp add: qb_delete_def)

lemma qb_insert_after_throws:
  "runHooks hooks beforeInsert [tableName, data] s = (Inr d, s1) \<Longrightarrow>
   originalInsert d s1 = (Inr r, s2) \<Longrightarrow>
   runHooks hooks afterInsert [tableName, r] s2 = (Inl e, s3) \<Longrightarrow>
   qb_insert hooks originalInsert tableName data s = (Inl e, s3)"
  by (simp add: qb_insert_def)

lemma qb_then_after_throws:
  "runHooks hooks beforeSelect [qb, tableName] s = (dropped, s1) \<Longrightarrow>
   originalThen s1 = (Inr r, s2) \<Longrightarrow>
   runHooks hooks afterSelect [tableName, r] s2 = (Inl e, s3) \<Longrightarrow>
   qb_then hooks originalThen qb tableName s = (Inl e, s3)"
  by (simp add: qb_then_def)

text \<open>What the \<open>beforeInsert\<close> chain returns is the payload of the insert statement.\<close>

lemma qb_insert_persists:
  "runHooks hooks beforeInsert [tableName, data] s = (Inr persisted, s1) \<Longrightarrow>
   qb_insert hooks originalInsert tableName data s =
     (case originalInsert persisted s1 of
        (Inl e, s2) \<Rightarrow> (Inl e, s2)
      | (Inr result, s2) \<Rightarrow> runHooks hooks afterInsert [tableName, result] s2)"
  by (simp add: qb_insert_def)

text \<open>Whatever the \<open>beforeSelect\<close> chain returns or throws, the query runs on the state it left.\<close>

lemma qb_then_ignores_beforeSelect:
  "runHooks hooks beforeSelect [qb, tableName] s = (outcome, s1) \<Longrightarrow>
   qb_then hooks originalThen qb tableName s =
     (case originalThen s1 of
        (Inl e, s2) \<Rightarrow> (Inl e, s2)
      | (Inr result, s2) \<Rightarrow> runHooks hooks afterSelect [tableName, result] s2)"
  by (simp add: qb_then_def)

text \<open>
  C7. A handler that throws does stop its chain, and for insert, update and delete the
  exception aborts the operation: with a throwing \<open>beforeInsert\<close> handler the insert
  statement is never sent. For \<open>beforeSelect\<close> it does not: with the same handler
  registered for \<open>beforeSelect\<close> the query runs and the select returns its row.
\<close>

theorem beforeSelect_throw_does_not_abort:
  "qb_insert (addHook beforeInsert (throwHook ''boom'') emptyHooks) (logStatement ''insert'')
      (JStr ''article'') (JObj [(''title'', JStr ''Hello'')]) []
     = (Inl (Error ''boom''), [''boom'']) \<and>
   runHooks (addHook beforeSelect (throwHook ''boom'') emptyHooks) beforeSelect
      [JStr ''qb'', JStr ''article''] []
     = (Inl (Error ''boom''), [''boom'']) \<and>
   qb_then (addHook beforeSelect (throwHook ''boom'') emptyHooks) (logStatement ''select'' JUndef)
      (JStr ''qb'') (JStr ''article'') []
     = (Inr (JArr [JObj [(''id'', JNum 1)]]), [''boom'', ''select''])"
  by (simp add: qb_insert_def qb_then_def runHooks_def addHook_def emptyHooks_def throwHook_def
      logStatement_def last_arg_def set_last_arg_def)

section \<open>Properties of the relation transformer\<close>

lemma map_of_set_prop: "map_of (set_prop k v r) = (map_of r)(k \<mapsto> v)"
  by (simp add: set_prop_def update_conv')

lemma map_of_delete_prop: "map_of (delete_prop k r) = (map_of r)(k := None)"
  by (simp add: delete_prop_def delete_conv')

lemma has_key_map_of: "has_key k r \<longleftrightarrow> map_of r k \<noteq> None"
  by (simp add: has_key_def map_of_eq_None_iff)

lemma get_prop_Some: "map_of r k = Some v \<Longrightarrow> get_prop r k = v"
  by (simp add: get_prop_def)

lemma map_of_toOneStep: "map_of (toOneStep t r) = toOneStepM (map_of t) r"
proof (cases "map_of t (propertyName r)")
  case None
  then show ?thesis
    by (simp add: toOneStep_def toOneStepM_def has_key_map_of)
next
  case (Some v)
  then have "get_prop t (propertyName r) = v" by (rule get_prop_Some)
  with Some show ?thesis
    by (simp add: toOneStep_def toOneStepM_def has_key_map_of storedId_def Let_def
        map_of_set_prop map_of_delete_prop)
qed

lemma map_of_toManyStep: "map_of (toManyStep t r) = toManyStepM (map_of t) r"
  by (auto simp: toManyStep_def toManyStepM_def has_key_map_of map_of_delete_prop Let_def)

lemma map_of_foldl_toOneStep: "map_of (foldl toOneStep t rs) = foldl toOneStepM (map_of t) rs"
  by (induction rs arbitrary: t) (simp_all add: map_of_toOneStep)

lemma map_of_foldl_toManyStep: "map_of (foldl toManyStep t rs) = foldl toManyStepM (map_of t) rs"
  by (induction rs arbitrary: t) (simp_all add: map_of_toManyStep)

lemma toOneStepM_other:
  "k \<noteq> propertyName r \<Longrightarrow> (isToOne r \<Longrightarrow> m (propertyName r) \<noteq> None \<Longrightarrow> k \<noteq> fkColumnOf r) \<Longrightarrow>
   toOneStepM m r k = m k"
  by (auto simp: toOneStepM_def split: option.splits)

lemma toOneStepM_own:
  "isToOne r \<Longrightarrow> toOneStepM m r (propertyName r) = None"
  by (auto simp: toOneStepM_def split: option.splits)

lemma toOneStepM_fk:
  "isToOne r \<Longrightarrow> m (propertyName r) = Some v \<Longrightarrow> fkColumnOf r \<noteq> propertyName r \<Longrightarrow>
   toOneStepM m r (fkColumnOf r) = (case storedId v of Some x \<Rightarrow> Some x | None \<Rightarrow> m (fkColumnOf r))"
  by (auto simp: toOneStepM_def split: option.splits)

lemma foldl_toOneStepM_frame:
  "\<lbrakk> \<forall>r\<in>set rs. isToOne r \<longrightarrow> propertyName r \<noteq> k \<and> (m (propertyName r) \<noteq> None \<longrightarrow> fkColumnOf r \<noteq> k);
     \<forall>r\<in>set rs. fkColumnOf r \<notin> propertyName ` set rs;
     distinct (map propertyName rs) \<rbrakk>
   \<Longrightarrow> foldl toOneStepM m rs k = m k"
proof (induction rs arbitrary: m)
  case Nil
  then show ?case by simp
next
  case (Cons x xs)
  have keep: "toOneStepM m x (propertyName r) = m (propertyName r)" if "r \<in> set xs" for r
  proof (rule toOneStepM_other)
    from Cons.prems(3) that show "propertyName r \<noteq> propertyName x" by (metis distinct.simps(2) imageI list.simps(9) list.set_map)
    from Cons.prems(2) that show "propertyName r \<noteq> fkColumnOf x" by force
  qed
  have here: "toOneStepM m x k = m k"
  proof (cases "isToOne x")
    case True
    with Cons.prems(1) show ?thesis by (intro toOneStepM_other) auto
  next
    case False
    then show ?thesis by (simp add: toOneStepM_def)
  qed
  have "foldl toOneStepM (toOneStepM m x) xs k = toOneStepM m x k"
  proof (rule Cons.IH)
    show "\<forall>r\<in>set xs. isToOne r \<longrightarrow> propertyName r \<noteq> k \<and>
            (toOneStepM m x (propertyName r) \<noteq> None \<longrightarrow> fkColumnOf r \<noteq> k)"
      using Cons.prems(1) keep by simp
    show "\<forall>r\<in>set xs. fkColumnOf r \<notin> propertyName ` set xs"
      using Cons.prems(2) by auto
    show "distinct (map propertyName xs)"
      using Cons.prems(3) by simp
  qed
  with here show ?case by simp
qed

lemma foldl_toOneStepM_None:
  "m k = None \<Longrightarrow> \<forall>r\<in>set rs. isToOne r \<longrightarrow> fkColumnOf r \<noteq> k \<Longrightarrow> foldl toOneStepM m rs k = None"
proof (induction rs arbitrary: m)
  case Nil
  then show ?case by simp
next
  case (Cons x xs)
  have "toOneStepM m x k = None"
    using Cons.prems by (auto simp: toOneStepM_def split: option.splits)
  with Cons show ?case by simp
qed

lemma foldl_toOneStepM_removed:
  "r \<in> set rs \<Longrightarrow> isToOne r \<Longrightarrow> \<forall>r'\<in>set rs. fkColumnOf r' \<noteq> propertyName r \<Longrightarrow>
   foldl toOneStepM m rs (propertyName r) = None"
proof (induction rs arbitrary: m)
  case Nil
  then show ?case by simp
next
  case (Cons x xs)
  show ?case
  proof (cases "x = r")
    case True
    with Cons.prems have "toOneStepM m x (propertyName r) = None"
      by (simp add: toOneStepM_own)
    then have "foldl toOneStepM (toOneStepM m x) xs (propertyName r) = None"
      using Cons.prems(3) by (intro foldl_toOneStepM_None) auto
    then show ?thesis by simp
  next
    case False
    with Cons show ?thesis by simp
  qed
qed

lemma foldl_toOneStepM_stored:
  assumes rin: "r \<in> set rs" and one: "isToOne r" and val: "m (propertyName r) = Some v"
    and fkpn: "\<forall>r\<in>set rs. fkColumnOf r \<notin> propertyName ` set rs"
    and dist: "distinct (map propertyName rs)"
    and inj: "distinct (map fkColumnOf (filter isToOne rs))"
  shows "foldl toOneStepM m rs (fkColumnOf r) =
        (case storedId v of Some x \<Rightarrow> Some x | None \<Rightarrow> m (fkColumnOf r))"
  using assms
proof (induction rs arbitrary: m)
  case Nil
  from Nil.prems(1) show ?case by simp
next
  case (Cons x xs)
  note rin = Cons.prems(1) and one = Cons.prems(2) and val = Cons.prems(3)
    and fkpn = Cons.prems(4) and dist = Cons.prems(5) and inj = Cons.prems(6)
  have fk_ne: "fkColumnOf r \<noteq> propertyName r'" if "r' \<in> set (x # xs)" for r'
    using fkpn rin that by (metis imageI)
  have fkpn': "\<forall>r\<in>set xs. fkColumnOf r \<notin> propertyName ` set xs"
    using fkpn by (simp add: image_iff)
  have dist': "distinct (map propertyName xs)" and x_fresh: "propertyName x \<notin> propertyName ` set xs"
    using dist by simp_all
  have inj': "distinct (map fkColumnOf (filter isToOne xs))"
    using inj by (simp split: if_splits)
  have x_fk_fresh: "fkColumnOf r' \<noteq> fkColumnOf x" if "isToOne x" "r' \<in> set xs" "isToOne r'" for r'
  proof -
    from inj that(1) have "fkColumnOf x \<notin> fkColumnOf ` set (filter isToOne xs)" by simp
    moreover from that(2,3) have "r' \<in> set (filter isToOne xs)" by simp
    ultimately show ?thesis by (metis imageI)
  qed
  show ?case
  proof (cases "x = r")
    case True
    have "fkColumnOf r \<noteq> propertyName r" using fk_ne [of r] True by simp
    then have step: "toOneStepM m r (fkColumnOf r) = (case storedId v of Some x \<Rightarrow> Some x | None \<Rightarrow> m (fkColumnOf r))"
      using one val by (intro toOneStepM_fk)
    have "foldl toOneStepM (toOneStepM m r) xs (fkColumnOf r) = toOneStepM m r (fkColumnOf r)"
    proof (rule foldl_toOneStepM_frame [OF _ fkpn' dist'], intro ballI impI conjI)
      fix r' assume r': "r' \<in> set xs" and one': "isToOne r'"
      from fk_ne [of r'] r' show "propertyName r' \<noteq> fkColumnOf r" by auto
      from x_fk_fresh [OF _ r' one'] one True show "fkColumnOf r' \<noteq> fkColumnOf r" by simp
    qed
    with step True show ?thesis by simp
  next
    case False
    with rin have rin': "r \<in> set xs" by simp
    with x_fresh have pn_ne: "propertyName r \<noteq> propertyName x" by (metis imageI)
    have "fkColumnOf x \<notin> propertyName ` set (x # xs)" using fkpn by simp
    then have "propertyName r \<noteq> fkColumnOf x" using rin' by (metis imageI list.set_intros(2))
    with pn_ne have pn_keep: "toOneStepM m x (propertyName r) = m (propertyName r)"
      by (intro toOneStepM_other) simp_all
    have fk_keep: "toOneStepM m x (fkColumnOf r) = m (fkColumnOf r)"
    proof (cases "isToOne x")
      case True
      from x_fk_fresh [OF True rin' one] have "fkColumnOf r \<noteq> fkColumnOf x" .
      moreover have "fkColumnOf r \<noteq> propertyName x" using fk_ne [of x] by simp
      ultimately show ?thesis by (intro toOneStepM_other) simp_all
    next
      case False
      then show ?thesis by (simp add: toOneStepM_def)
    qed
    have "toOneStepM m x (propertyName r) = Some v" using pn_keep val by simp
    from Cons.IH [of "toOneStepM m x", OF rin' one this fkpn' dist' inj']
    show ?thesis using fk_keep by (simp split: option.split)
  qed
qed

lemma toManyStepM_apply:
  "toManyStepM m x k = (if isToMany x \<and> propertyName x = k then None else m k)"
  by (simp add: toManyStepM_def)

lemma foldl_toManyStepM:
  "foldl toManyStepM m rs k = (if \<exists>r\<in>set rs. isToMany r \<and> propertyName r = k then None else m k)"
proof (induction rs arbitrary: m)
  case Nil
  show ?case by simp
next
  case (Cons x xs)
  have "foldl toManyStepM m (x # xs) k = foldl toManyStepM (toManyStepM m x) xs k" by simp
  also have "\<dots> = (if \<exists>r\<in>set xs. isToMany r \<and> propertyName r = k then None else toManyStepM m x k)"
    by (rule Cons.IH)
  also have "\<dots> = (if \<exists>r\<in>set (x # xs). isToMany r \<and> propertyName r = k then None else m k)"
    by (auto simp: toManyStepM_apply)
  finally show ?case .
qed

lemma isToOne_or_isToMany: "isToOne r \<or> isToMany r"
  by (cases "rtype r") (simp_all add: isToOne_def isToMany_def)

lemmas scenario_defs = scenarioMetadata_def articleMeta_def authorRel_def tagsRel_def
lemmas fk_eval_defs = transformRelationsToFK_def lookupTableMeta_def toOneStep_def toManyStep_def
  isToOne_def isToMany_def fkColumnOf_def truthy_str_def has_key_def get_prop_def set_prop_def
  delete_prop_def

text \<open>
  C1 (as the code has it). For a table found in the metadata whose relations have distinct
  property names, foreign-key columns that are not relation names and pairwise distinct
  among the to-one relations: the transform removes every relation key (to-one and
  to-many) from the record; for a to-one relation present in the record its foreign-key
  column holds null for null, \<open>value.id\<close> for an object whose \<open>id\<close> is not undefined, and
  the value itself for a number or a string, and for any other value the key is deleted
  and the column is left as the record had it; every other field is unchanged, so a
  to-many key adds no column.
\<close>

theorem transformRelationsToFK_columns:
  assumes name: "tableName \<noteq> []"
    and tbl: "lookupTableMeta md tableName = Some tableMeta"
    and rels: "relations tableMeta = Some rels"
    and dist: "distinct (map propertyName rels)"
    and fkpn: "\<forall>r\<in>set rels. fkColumnOf r \<notin> propertyName ` set rels"
    and inj: "distinct (map fkColumnOf (filter isToOne rels))"
  shows "\<exists>t. transformRelationsToFK (Some md) tableName data = Inr t \<and>
     (\<forall>r\<in>set rels. \<not> has_key (propertyName r) t) \<and>
     (\<forall>r\<in>set rels. isToOne r \<longrightarrow> has_key (propertyName r) data \<longrightarrow>
        map_of t (fkColumnOf r) =
          (let v = get_prop data (propertyName r)
           in if v = JNull then Some JNull
              else if typeof_object v \<and> prop_id v \<noteq> JUndef then Some (prop_id v)
              else if number_or_string v then Some v
              else map_of data (fkColumnOf r))) \<and>
     (\<forall>k. k \<notin> propertyName ` set rels \<longrightarrow>
          (\<forall>r\<in>set rels. isToOne r \<and> has_key (propertyName r) data \<longrightarrow> fkColumnOf r \<noteq> k) \<longrightarrow>
          map_of t k = map_of data k)"
proof -
  define t where "t = foldl toManyStep (foldl toOneStep data rels) rels"
  have run: "transformRelationsToFK (Some md) tableName data = Inr t"
    using name tbl rels by (simp add: transformRelationsToFK_def t_def)
  have mt: "map_of t k =
      (if \<exists>r\<in>set rels. isToMany r \<and> propertyName r = k then None
       else foldl toOneStepM (map_of data) rels k)" for k
    by (simp only: t_def map_of_foldl_toManyStep map_of_foldl_toOneStep foldl_toManyStepM)
  have gone: "\<not> has_key (propertyName r) t" if r: "r \<in> set rels" for r
  proof (cases "isToMany r")
    case True
    with r have "\<exists>r'\<in>set rels. isToMany r' \<and> propertyName r' = propertyName r" by blast
    then show ?thesis by (simp add: has_key_map_of mt)
  next
    case False
    with isToOne_or_isToMany [of r] have one: "isToOne r" by simp
    have "\<forall>r'\<in>set rels. fkColumnOf r' \<noteq> propertyName r"
      using fkpn r by (metis imageI)
    from foldl_toOneStepM_removed [OF r one this]
    show ?thesis by (simp add: has_key_map_of mt)
  qed
  have stored: "map_of t (fkColumnOf r) =
          (let v = get_prop data (propertyName r)
           in if v = JNull then Some JNull
              else if typeof_object v \<and> prop_id v \<noteq> JUndef then Some (prop_id v)
              else if number_or_string v then Some v
              else map_of data (fkColumnOf r))"
    if r: "r \<in> set rels" and one: "isToOne r" and present: "has_key (propertyName r) data" for r
  proof -
    from present obtain v where v: "map_of data (propertyName r) = Some v"
      by (auto simp: has_key_map_of)
    then have gv: "get_prop data (propertyName r) = v" by (rule get_prop_Some)
    have "\<not> (\<exists>r'\<in>set rels. isToMany r' \<and> propertyName r' = fkColumnOf r)"
      using fkpn r by (metis imageI)
    then have "map_of t (fkColumnOf r) = foldl toOneStepM (map_of data) rels (fkColumnOf r)"
      by (simp only: mt if_False)
    also have "\<dots> = (case storedId v of Some x \<Rightarrow> Some x | None \<Rightarrow> map_of data (fkColumnOf r))"
      by (rule foldl_toOneStepM_stored [of r rels "map_of data" v, OF r one v fkpn dist inj])
    finally show ?thesis
      by (simp add: gv storedId_def Let_def)
  qed
  have frame: "map_of t k = map_of data k"
    if k: "k \<notin> propertyName ` set rels"
      and nofk: "\<forall>r\<in>set rels. isToOne r \<and> has_key (propertyName r) data \<longrightarrow> fkColumnOf r \<noteq> k" for k
  proof -
    from k have "\<not> (\<exists>r'\<in>set rels. isToMany r' \<and> propertyName r' = k)" by (metis imageI)
    then have "map_of t k = foldl toOneStepM (map_of data) rels k"
      by (simp only: mt if_False)
    also have "\<dots> = map_of data k"
    proof (rule foldl_toOneStepM_frame [OF _ fkpn dist], intro ballI impI conjI)
      fix r assume r: "r \<in> set rels" and one: "isToOne r"
      from k r show "propertyName r \<noteq> k" by (metis imageI)
      assume "map_of data (propertyName r) \<noteq> None"
      then have "has_key (propertyName r) data" by (simp add: has_key_map_of)
      with nofk r one show "fkColumnOf r \<noteq> k" by blast
    qed
    finally show ?thesis .
  qed
  from run gone stored frame show ?thesis by blast
qed

text \<open>Scenario A: \<open>author: {id: 5}\<close> becomes \<open>authorId: 5\<close>; \<open>author\<close> and \<open>tags\<close> are gone.\<close>

theorem transformRelationsToFK_columns_witness:
  "\<exists>t. transformRelationsToFK (Some scenarioMetadata) ''article''
          [(''title'', JStr ''Hello''), (''author'', JObj [(''id'', JNum 5)]),
           (''tags'', JArr [JObj [(''id'', JNum 1)], JObj [(''id'', JNum 2)]])] = Inr t \<and>
       \<not> has_key ''author'' t \<and> \<not> has_key ''tags'' t \<and>
       map_of t ''authorId'' = Some (JNum 5) \<and>
       map_of t ''title'' = Some (JStr ''Hello'')"
proof -
  let ?data = "[(''title'', JStr ''Hello''), (''author'', JObj [(''id'', JNum 5)]),
           (''tags'', JArr [JObj [(''id'', JNum 1)], JObj [(''id'', JNum 2)]])]"
  have h1: "''article'' \<noteq> []" by simp
  have h2: "lookupTableMeta scenarioMetadata ''article'' = Some articleMeta"
    by (simp add: lookupTableMeta_def scenarioMetadata_def)
  have h3: "relations articleMeta = Some [authorRel, tagsRel]"
    by (simp add: articleMeta_def)
  have h4: "distinct (map propertyName [authorRel, tagsRel])"
    by (simp add: authorRel_def tagsRel_def)
  have h5: "\<forall>r\<in>set [authorRel, tagsRel]. fkColumnOf r \<notin> propertyName ` set [authorRel, tagsRel]"
    by (simp add: authorRel_def tagsRel_def fkColumnOf_def truthy_str_def)
  have h6: "distinct (map fkColumnOf (filter isToOne [authorRel, tagsRel]))"
    by (simp add: authorRel_def tagsRel_def fkColumnOf_def truthy_str_def isToOne_def)
  from transformRelationsToFK_columns [OF h1 h2 h3 h4 h5 h6, of ?data]
  obtain t where run: "transformRelationsToFK (Some scenarioMetadata) ''article'' ?data = Inr t"
    and gone: "\<forall>r\<in>set [authorRel, tagsRel]. \<not> has_key (propertyName r) t"
    and stored: "\<forall>r\<in>set [authorRel, tagsRel]. isToOne r \<longrightarrow> has_key (propertyName r) ?data \<longrightarrow>
        map_of t (fkColumnOf r) =
          (let v = get_prop ?data (propertyName r)
           in if v = JNull then Some JNull
              else if typeof_object v \<and> prop_id v \<noteq> JUndef then Some (prop_id v)
              else if number_or_string v then Some v
              else map_of ?data (fkColumnOf r))"
    and frame: "\<forall>k. k \<notin> propertyName ` set [authorRel, tagsRel] \<longrightarrow>
          (\<forall>r\<in>set [authorRel, tagsRel]. isToOne r \<and> has_key (propertyName r) ?data \<longrightarrow> fkColumnOf r \<noteq> k) \<longrightarrow>
          map_of t k = map_of ?data k"
    by blast
  from gone have g: "\<not> has_key ''author'' t" "\<not> has_key ''tags'' t"
    by (simp_all add: authorRel_def tagsRel_def)
  from stored have s: "map_of t ''authorId'' = Some (JNum 5)"
    by (simp add: authorRel_def tagsRel_def isToOne_def has_key_def fkColumnOf_def truthy_str_def get_prop_def)
  from spec [OF frame, of "''title''"] have f: "map_of t ''title'' = Some (JStr ''Hello'')"
    by (simp add: authorRel_def tagsRel_def isToOne_def has_key_def fkColumnOf_def truthy_str_def)
  from run g s f show ?thesis by blast
qed

text \<open>
  As stated, the rule fails on a relation value that is an object without \<open>id\<close>: the rule
  \<open>value.id ?? value\<close> would store the object in \<open>authorId\<close>; the code deletes \<open>author\<close>
  and stores nothing.
\<close>

theorem transformRelationsToFK_rule_counterexample:
  "transformRelationsToFK (Some scenarioMetadata) ''article''
      [(''title'', JStr ''Hello''), (''author'', JObj [(''name'', JStr ''x'')])]
     = Inr [(''title'', JStr ''Hello'')] \<and>
   spec_relationId (JObj [(''name'', JStr ''x'')]) = JObj [(''name'', JStr ''x'')] \<and>
   \<not> spec_fk_rule scenarioMetadata ''article'' authorRel
      [(''title'', JStr ''Hello''), (''author'', JObj [(''name'', JStr ''x'')])]"
  by (simp add: spec_fk_rule_def spec_relationId_def scenario_defs fk_eval_defs)

lemma spec_fk_rule_holds_example:
  "spec_fk_rule scenarioMetadata ''article'' authorRel
      [(''title'', JStr ''Hello''), (''author'', JObj [(''id'', JNum 5)])]"
  by (simp add: spec_fk_rule_def spec_relationId_def scenario_defs fk_eval_defs)

section \<open>Properties of the query executor\<close>

lemma split_on_example: "split_on CHR '','' ''a,b,,c'' = [''a'', ''b'', [], ''c'']"
  by simp

lemma trim_example: "trim '' ab c  '' = ''ab c''"
  by (simp add: trim_def is_space_def)

text \<open>
  Offset and limit alone, on rows already in their order: for a select with \<open>page \<ge> 1\<close> and \<open>limit > 0\<close> the executor sets
  \<open>offset = (page - 1) * limit\<close> and returns the rows from that offset on, at most \<open>limit\<close>
  of them, in the order of the sorted matching rows; with \<open>limit = 0\<close> (whatever the page),
  or with neither limit nor page, it returns all matching rows.
\<close>

theorem select_pagination:
  "(1 \<le> page \<longrightarrow> 0 < lim \<longrightarrow>
      offset (convertPagination (Some page) (Some lim)) = Some ((page - 1) * lim) \<and>
      selectPage (Some page) (Some lim) rows =
        Inr (take (nat lim) (drop (nat ((page - 1) * lim)) rows)) \<and>
      length (take (nat lim) (drop (nat ((page - 1) * lim)) rows)) \<le> nat lim) \<and>
   selectPage pg (Some 0) rows = Inr rows \<and>
   selectPage None None rows = Inr rows"
proof (intro conjI impI)
  assume p: "1 \<le> page" and l: "0 < lim"
  then have nz: "(page - 1) * lim = 0 \<longleftrightarrow> page = 1" by auto
  from p l show "offset (convertPagination (Some page) (Some lim)) = Some ((page - 1) * lim)"
    by (simp add: convertPagination_def truthy_num_def)
  from p l have "0 \<le> (page - 1) * lim" by simp
  then have nonneg: "\<not> (page - 1) * lim < 0" by linarith
  show "selectPage (Some page) (Some lim) rows =
        Inr (take (nat lim) (drop (nat ((page - 1) * lim)) rows))"
  proof (cases "page = 1")
    case True
    with l show ?thesis
      by (simp add: selectPage_def paginate_def convertPagination_def truthy_num_def
          applyOffset_def applyLimit_def)
  next
    case False
    with p l nz nonneg show ?thesis
      by (simp add: selectPage_def paginate_def convertPagination_def truthy_num_def
          applyOffset_def applyLimit_def)
  qed
  show "length (take (nat lim) (drop (nat ((page - 1) * lim)) rows)) \<le> nat lim"
    by simp
next
  show "selectPage pg (Some 0) rows = Inr rows"
    by (simp add: selectPage_def paginate_def convertPagination_def truthy_num_def
        applyOffset_def applyLimit_def)
  show "selectPage None None rows = Inr rows"
    by (simp add: selectPage_def paginate_def convertPagination_def truthy_num_def
        applyOffset_def applyLimit_def)
qed

text \<open>P5: page 2 with limit 10 over 25 sorted rows returns rows 11 to 20.\<close>

theorem select_pagination_witness:
  "selectPage (Some 2) (Some 10) rows25 = Inr [11, 12, 13, 14, 15, 16, 17, 18, 19, 20]"
proof -
  have "(1::int) \<le> 2" and "(0::int) < 10" by simp_all
  with select_pagination [of 2 10 rows25]
  have "selectPage (Some 2) (Some 10) rows25 = Inr (take (nat 10) (drop (nat ((2 - 1) * 10)) rows25))"
    by blast
  then show ?thesis by (simp add: rows25_def)
qed

subsection \<open>Sorted pages of the SQL executor\<close>










lemma count_list_le_set: "(\<And>x. count_list xs x \<le> count_list ys x) \<Longrightarrow> set xs \<subseteq> set ys"
  by (metis count_list_0_iff le_zero_eq subsetI)

lemma count_list_eq_set: "(\<And>x. count_list xs x = count_list ys x) \<Longrightarrow> set xs = set ys"
  by (metis count_list_0_iff subsetI subset_antisym)







text \<open>
  On the document backend a select with a custom pipeline returns what the pipeline
  yields, whatever page and limit are: all 25 rows for page 2 with limit 10.
\<close>

lemma mongoPipelineSelect_ignores_page:
  "mongoPipelineSelect aggregate mapDocument pipeline page lim = map mapDocument (aggregate pipeline)"
  "length (mongoPipelineSelect (\<lambda>p. rows25) (\<lambda>d. d) [] (Some 2) (Some 10)) = 25"
  by (simp_all add: mongoPipelineSelect_def rows25_def)

lemma map_of_operatorVocabulary_None:
  "map_of operatorVocabulary op = None \<longleftrightarrow>
     op \<notin> {''_eq'', ''_neq'', ''_in'', ''_not_in'', ''_gt'', ''_gte'', ''_lt'', ''_lte'', ''_contains'', ''_is_null''}"
  by (simp add: operatorVocabulary_def)

lemma convertOperator_known:
  "map_of operatorVocabulary op = Some s \<Longrightarrow> convertOperator op = s"
  by (auto simp: operatorVocabulary_def convertOperator_def split: if_splits)

lemma convertOperator_unknown:
  "map_of operatorVocabulary op = None \<Longrightarrow> convertOperator op = replace_first CHR ''_'' CHR '' '' op"
  unfolding map_of_operatorVocabulary_None by (simp add: convertOperator_def)

lemma fieldConditions_object:
  "(op, val) \<in> set ops \<Longrightarrow>
   \<lparr> wfield = field, woperator = convertOperator op, wvalue = val \<rparr> \<in> set (fieldConditions (field, JObj ops))"
  by (force simp: fieldConditions_def)

text \<open>
  C9 (as the code has it). The ten operator keys of the chain translate to their backend
  operators; any other operator key is not rejected: it is turned into an operator string
  by replacing its first underscore with a space, and the condition is kept. Every
  operator entry of a filter without logical operators yields a where condition.
\<close>

theorem filter_operators_never_rejected:
  "(\<forall>s. map_of operatorVocabulary op = Some s \<longrightarrow> convertOperator op = s) \<and>
   (map_of operatorVocabulary op = None \<longrightarrow>
      convertOperator op = replace_first CHR ''_'' CHR '' '' op) \<and>
   (\<not> hasLogical f \<longrightarrow> (field, JObj ops) \<in> set f \<longrightarrow> (op, val) \<in> set ops \<longrightarrow>
      (\<exists>conds. filterToWhere hasLogical (Some f) = Some conds \<and>
         \<lparr> wfield = field, woperator = convertOperator op, wvalue = val \<rparr> \<in> set conds))"
proof (intro conjI allI impI)
  fix s assume "map_of operatorVocabulary op = Some s"
  then show "convertOperator op = s" by (rule convertOperator_known)
next
  assume "map_of operatorVocabulary op = None"
  then show "convertOperator op = replace_first CHR ''_'' CHR '' '' op"
    by (rule convertOperator_unknown)
next
  assume nl: "\<not> hasLogical f" and fin: "(field, JObj ops) \<in> set f" and oin: "(op, val) \<in> set ops"
  from nl have "filterToWhere hasLogical (Some f) = Some (concat (map fieldConditions f))"
    by (simp add: filterToWhere_def)
  moreover from fin fieldConditions_object [OF oin, of field]
  have "\<lparr> wfield = field, woperator = convertOperator op, wvalue = val \<rparr>
          \<in> set (concat (map fieldConditions f))"
    by auto
  ultimately show "\<exists>conds. filterToWhere hasLogical (Some f) = Some conds \<and>
         \<lparr> wfield = field, woperator = convertOperator op, wvalue = val \<rparr> \<in> set conds"
    by blast
qed

text \<open>The unknown key \<open>_foo\<close> in \<open>{name: {_foo: 1}}\<close> becomes the operator \<open>" foo"\<close>.\<close>

theorem filter_operators_never_rejected_witness:
  "convertOperator ''_gte'' = ''>='' \<and>
   convertOperator ''_foo'' = '' foo'' \<and>
   (\<exists>conds. filterToWhere hasLogicalOperators (Some [(''name'', JObj [(''_foo'', JNum 1)])]) = Some conds \<and>
      \<lparr> wfield = ''name'', woperator = '' foo'', wvalue = JNum 1 \<rparr> \<in> set conds)"
proof -
  note T = filter_operators_never_rejected [of "''_foo''" hasLogicalOperators
      "[(''name'', JObj [(''_foo'', JNum 1)])]" "''name''" "[(''_foo'', JNum 1)]" "JNum 1"]
  have unknown: "map_of operatorVocabulary ''_foo'' = None"
    by (simp add: operatorVocabulary_def)
  have nl: "\<not> hasLogicalOperators [(''name'', JObj [(''_foo'', JNum 1)])]"
    by (simp add: hasLogicalOperators_def)
  from T unknown have foo: "convertOperator ''_foo'' = '' foo''" by simp
  from T nl have "\<exists>conds. filterToWhere hasLogicalOperators (Some [(''name'', JObj [(''_foo'', JNum 1)])]) = Some conds \<and>
      \<lparr> wfield = ''name'', woperator = convertOperator ''_foo'', wvalue = JNum 1 \<rparr> \<in> set conds"
    by simp
  with foo have third: "\<exists>conds. filterToWhere hasLogicalOperators (Some [(''name'', JObj [(''_foo'', JNum 1)])]) = Some conds \<and>
      \<lparr> wfield = ''name'', woperator = '' foo'', wvalue = JNum 1 \<rparr> \<in> set conds"
    by simp
  have known: "map_of operatorVocabulary ''_gte'' = Some ''>=''"
    by (simp add: operatorVocabulary_def)
  from filter_operators_never_rejected [of "''_gte''" hasLogicalOperators "[]" "[]" "[]" JNull] known
  have "convertOperator ''_gte'' = ''>=''" by blast
  with foo third show ?thesis by blast
qed

text \<open>
  No rejection happens: the filter \<open>{name: {_foo: 1}}\<close> carries an operator key outside the
  vocabulary and is not rejected; the executor builds the condition \<open>name " foo" 1\<close>.
\<close>

theorem filter_unknown_operator_counterexample:
  "map_of operatorVocabulary ''_foo'' = None \<and>
   filterToWhere hasLogicalOperators (Some [(''name'', JObj [(''_foo'', JNum 1)])]) =
     Some [\<lparr> wfield = ''name'', woperator = '' foo'', wvalue = JNum 1 \<rparr>]"
  by (simp add: operatorVocabulary_def filterToWhere_def hasLogicalOperators_def
      fieldConditions_def convertOperator_def)

lemma paginate_subset: "paginate p rows = Inr results \<Longrightarrow> set results \<subseteq> set rows"
proof -
  assume run: "paginate p rows = Inr results"
  then obtain rs where off: "applyOffset (offset p) rows = Inr rs"
    and res: "results = applyLimit (limit p) rs"
    by (auto simp: paginate_def split: sum.splits)
  from off have "set rs \<subseteq> set rows"
    by (auto simp: applyOffset_def split: if_splits dest: in_set_dropD)
  moreover from res have "set results \<subseteq> set rs"
    by (auto simp: applyLimit_def split: option.splits if_splits dest: in_set_takeD)
  ultimately show ?thesis by blast
qed

lemma get_prop_set_prop: "get_prop (set_prop k v r) k = v"
  by (simp add: get_prop_def set_prop_def update_conv')

lemma windowed_head_count:
  assumes run: "paginate p (map (\<lambda>r. set_prop ''__filter_count__'' (JNum n) (project r)) matching) = Inr results"
    and ne: "results \<noteq> []"
  shows "count_number (get_prop (hd results) ''__filter_count__'') = n"
proof -
  from ne have "hd results \<in> set results" by simp
  with paginate_subset [OF run]
  obtain r where "hd results = set_prop ''__filter_count__'' (JNum n) (project r)"
    by auto
  then show ?thesis by (simp add: get_prop_set_prop)
qed

text \<open>
  C6 (as the code has it). On the SQL backend the separate count query is sent exactly
  when \<open>meta\<close> asks for \<open>totalCount\<close> or \<open>*\<close>, and the windowed count column is selected
  exactly when it asks for \<open>filterCount\<close> or \<open>*\<close>. The envelope has a \<open>meta\<close> object exactly
  when \<open>meta\<close> names something; \<open>totalCount\<close> is in it exactly when requested and is the
  number of rows of the table; \<open>filterCount\<close> is in it exactly when requested and, when
  the returned page is not empty, is the number of rows matching the filter, whatever
  the pagination.
\<close>

theorem sqlExecutor_meta_counts:
  assumes run: "sqlExecutor meta page lim matches project tableRows = Inr r"
  shows "queries r =
           (if needsTotalCount (metaParts meta) then [CountAllQuery] else []) @
           [MainQuery (needsFilterCount (metaParts meta))] \<and>
         (resp_meta (response r) = None \<longleftrightarrow> metaParts meta = []) \<and>
         (\<forall>m. resp_meta (response r) = Some m \<longrightarrow>
            map_of m ''totalCount'' =
              (if needsTotalCount (metaParts meta) then Some (int (length tableRows)) else None) \<and>
            (map_of m ''filterCount'' \<noteq> None \<longleftrightarrow> needsFilterCount (metaParts meta)) \<and>
            (needsFilterCount (metaParts meta) \<longrightarrow> resp_data (response r) \<noteq> [] \<longrightarrow>
               map_of m ''filterCount'' = Some (int (length (filter matches tableRows)))))"
proof -
  let ?parts = "metaParts meta"
  let ?n = "int (length (filter matches tableRows))"
  let ?windowed = "map (\<lambda>r. if needsFilterCount ?parts
                      then set_prop ''__filter_count__'' (JNum ?n) (project r)
                      else project r) (filter matches tableRows)"
  from run obtain results where pg: "paginate (convertPagination page lim) ?windowed = Inr results"
    by (auto simp: sqlExecutor_def Let_def split: sum.splits)
  let ?fc = "if needsFilterCount ?parts \<and> results \<noteq> []
             then count_number (get_prop (hd results) ''__filter_count__'') else 0"
  let ?rows = "if needsFilterCount ?parts \<and> results \<noteq> []
               then map (delete_prop ''__filter_count__'') results else results"
  let ?m = "(if needsTotalCount ?parts
             then [(''totalCount'', if needsTotalCount ?parts then int (length tableRows) else 0)] else []) @
            (if needsFilterCount ?parts then [(''filterCount'', ?fc)] else [])"
  from run have "(case paginate (convertPagination page lim) ?windowed of
                    Inl e \<Rightarrow> Inl e
                  | Inr results \<Rightarrow>
                      Inr \<lparr> response = \<lparr> resp_data =
                               (if needsFilterCount ?parts \<and> results \<noteq> []
                                then map (delete_prop ''__filter_count__'') results else results),
                             resp_meta = (if ?parts \<noteq> [] then
                               Some ((if needsTotalCount ?parts
                                      then [(''totalCount'', if needsTotalCount ?parts then int (length tableRows) else 0)] else []) @
                                     (if needsFilterCount ?parts
                                      then [(''filterCount'',
                                             if needsFilterCount ?parts \<and> results \<noteq> []
                                             then count_number (get_prop (hd results) ''__filter_count__'') else 0)]
                                      else []))
                               else None) \<rparr>,
                           queries = (if needsTotalCount ?parts then [CountAllQuery] else []) @
                                     [MainQuery (needsFilterCount ?parts)] \<rparr>) = Inr r"
    unfolding sqlExecutor_def Let_def .
  then have r: "r = \<lparr> response = \<lparr> resp_data = ?rows,
        resp_meta = (if ?parts \<noteq> [] then Some ?m else None) \<rparr>,
      queries = (if needsTotalCount ?parts then [CountAllQuery] else []) @
                [MainQuery (needsFilterCount ?parts)] \<rparr>"
    by (simp only: pg sum.case sum.inject)
  have q: "queries r = (if needsTotalCount ?parts then [CountAllQuery] else []) @
                [MainQuery (needsFilterCount ?parts)]"
    by (subst r) simp
  have none: "resp_meta (response r) = None \<longleftrightarrow> ?parts = []"
    by (subst r) simp
  have some: "resp_meta (response r) = Some m \<Longrightarrow> m = ?m" for m
    by (subst (asm) r) (simp split: if_splits)
  have total: "map_of ?m ''totalCount'' =
      (if needsTotalCount ?parts then Some (int (length tableRows)) else None)"
    by simp
  have present: "map_of ?m ''filterCount'' \<noteq> None \<longleftrightarrow> needsFilterCount ?parts"
    by simp
  have rows_ne: "resp_data (response r) \<noteq> [] \<Longrightarrow> results \<noteq> []"
    by (subst (asm) r) (simp split: if_splits)
  have count: "map_of ?m ''filterCount'' = Some ?n"
    if need: "needsFilterCount ?parts" and ne: "resp_data (response r) \<noteq> []"
  proof -
    from rows_ne [OF ne] have ne': "results \<noteq> []" .
    from pg need have "paginate (convertPagination page lim)
        (map (\<lambda>r. set_prop ''__filter_count__'' (JNum ?n) (project r)) (filter matches tableRows)) = Inr results"
      by simp
    from windowed_head_count [OF this ne']
    have "count_number (get_prop (hd results) ''__filter_count__'') = ?n" .
    with need ne' show ?thesis by simp
  qed
  show ?thesis
  proof (intro conjI allI impI)
    show "queries r = (if needsTotalCount ?parts then [CountAllQuery] else []) @
                [MainQuery (needsFilterCount ?parts)]" by (rule q)
    show "resp_meta (response r) = None \<longleftrightarrow> ?parts = []" by (rule none)
  next
    fix m assume m: "resp_meta (response r) = Some m"
    from some [OF m] total
    show "map_of m ''totalCount'' =
      (if needsTotalCount ?parts then Some (int (length tableRows)) else None)"
      by (simp only:)
    from some [OF m] present
    show "map_of m ''filterCount'' \<noteq> None \<longleftrightarrow> needsFilterCount ?parts"
      by (simp only:)
  next
    fix m assume m: "resp_meta (response r) = Some m"
      and need: "needsFilterCount ?parts" and ne: "resp_data (response r) \<noteq> []"
    from some [OF m] count [OF need ne]
    show "map_of m ''filterCount'' = Some ?n" by (simp only:)
  qed
qed
lemmas executor_eval_defs = sqlExecutor_def mongoExecutor_def metaParts_def trim_def is_space_def
  needsFilterCount_def needsTotalCount_def paginate_def convertPagination_def truthy_num_def
  applyOffset_def applyLimit_def rows12_def set_prop_def delete_prop_def get_prop_def

lemma scenario_D_run:
  "sqlExecutor (MetaString ''filterCount'') (Some 1) (Some 5) (\<lambda>r. True) (\<lambda>r. r) rows12 =
     Inr \<lparr> response = \<lparr> resp_data = [[(''id'', JNum 1)], [(''id'', JNum 2)], [(''id'', JNum 3)],
                                        [(''id'', JNum 4)], [(''id'', JNum 5)]],
                          resp_meta = Some [(''filterCount'', 12)] \<rparr>,
            queries = [MainQuery True] \<rparr>"
  by (simp add: executor_eval_defs)

text \<open>Scenario D: page 1, limit 5, \<open>meta = filterCount\<close> over 12 matching rows.\<close>

theorem sqlExecutor_meta_counts_witness:
  "\<exists>r m. sqlExecutor (MetaString ''filterCount'') (Some 1) (Some 5) (\<lambda>r. True) (\<lambda>r. r) rows12 = Inr r \<and>
      resp_meta (response r) = Some m \<and>
      map_of m ''filterCount'' = Some 12 \<and> map_of m ''totalCount'' = None \<and>
      length (resp_data (response r)) = 5 \<and> queries r = [MainQuery True]"
proof -
  let ?r = "\<lparr> response = \<lparr> resp_data = [[(''id'', JNum 1)], [(''id'', JNum 2)], [(''id'', JNum 3)],
                                        [(''id'', JNum 4)], [(''id'', JNum 5)]],
                          resp_meta = Some [(''filterCount'', 12)] \<rparr>,
            queries = [MainQuery True] \<rparr>"
  have parts: "metaParts (MetaString ''filterCount'') = [''filterCount'']"
    by (simp add: metaParts_def trim_def is_space_def)
  note T = sqlExecutor_meta_counts [OF scenario_D_run]
  from T have q: "queries ?r = [MainQuery True]"
    by (simp add: parts needsFilterCount_def needsTotalCount_def)
  from T have "map_of [(''filterCount'', 12::int)] ''filterCount'' = Some (int (length (filter (\<lambda>r. True) rows12)))
      \<and> map_of [(''filterCount'', 12::int)] ''totalCount'' = None"
    by (simp add: parts needsFilterCount_def needsTotalCount_def)
  then have "map_of [(''filterCount'', 12::int)] ''filterCount'' = Some 12
      \<and> map_of [(''filterCount'', 12::int)] ''totalCount'' = None"
    by (simp add: rows12_def)
  with q scenario_D_run show ?thesis by simp
qed

text \<open>
  The document backend returns no counts: with \<open>meta = filterCount\<close> over the same
  twelve documents the envelope has no \<open>meta\<close> at all.
\<close>

theorem mongoExecutor_meta_counterexample:
  "mongoExecutor (MetaString ''filterCount'') (Some 1) (Some 5) rows12 =
     Inr \<lparr> resp_data = [[(''id'', JNum 1)], [(''id'', JNum 2)], [(''id'', JNum 3)],
                        [(''id'', JNum 4)], [(''id'', JNum 5)]],
           resp_meta = None \<rparr>"
  by (simp add: executor_eval_defs)

text \<open>
  On the SQL backend the count is read from the first returned row: a page past the end
  reports \<open>filterCount = 0\<close> although twelve rows match.
\<close>

lemma sqlExecutor_empty_page_count:
  "sqlExecutor (MetaString ''filterCount'') (Some 4) (Some 5) (\<lambda>r. True) (\<lambda>r. r) rows12 =
     Inr \<lparr> response = \<lparr> resp_data = [], resp_meta = Some [(''filterCount'', 0)] \<rparr>,
            queries = [MainQuery True] \<rparr>"
  by (simp add: executor_eval_defs)

section \<open>Properties of the field expansion\<close>

lemma foldl_push_new_distinct:
  "distinct (map f xs) \<Longrightarrow> set acc \<inter> f ` set xs = {} \<Longrightarrow>
   foldl (\<lambda>sf x. push_new sf (f x)) acc xs = acc @ map f xs"
proof (induction xs arbitrary: acc)
  case Nil
  show ?case by simp
next
  case (Cons x xs)
  from Cons.prems have fresh: "f x \<notin> set acc" by auto
  have "set (acc @ [f x]) \<inter> f ` set xs = {}"
    using Cons.prems by auto
  with Cons.IH [of "acc @ [f x]"] Cons.prems(1)
  have "foldl (\<lambda>sf x. push_new sf (f x)) (acc @ [f x]) xs = (acc @ [f x]) @ map f xs"
    by simp
  with fresh show ?case by (simp add: push_new_def)
qed

lemma foldl_addIdOnly_distinct:
  "distinct (map propertyName rs) \<Longrightarrow> fst ` set m \<inter> propertyName ` set rs = {} \<Longrightarrow>
   foldl addIdOnly m rs = m @ map (\<lambda>r. (propertyName r, [''id''])) rs"
proof (induction rs arbitrary: m)
  case Nil
  show ?case by simp
next
  case (Cons r rs)
  from Cons.prems(2) have "propertyName r \<notin> fst ` set m" by auto
  then have absent: "map_of m (propertyName r) = None"
    by (simp add: map_of_eq_None_iff)
  have "fst ` set (m @ [(propertyName r, [''id''])]) \<inter> propertyName ` set rs = {}"
    using Cons.prems by auto
  with Cons.IH [of "m @ [(propertyName r, [''id''])]"] Cons.prems(1)
  have "foldl addIdOnly (m @ [(propertyName r, [''id''])]) rs =
          (m @ [(propertyName r, [''id''])]) @ map (\<lambda>r. (propertyName r, [''id''])) rs"
    by simp
  moreover from absent have "addIdOnly m r = m @ [(propertyName r, [''id''])]"
    by (simp add: addIdOnly_def)
  ultimately show ?case by simp
qed

lemma find_by_distinct_key:
  "distinct (map f xs) \<Longrightarrow> x \<in> set xs \<Longrightarrow> find (\<lambda>y. f y = f x) xs = Some x"
proof (induction xs)
  case Nil
  then show ?case by simp
next
  case (Cons y ys)
  show ?case
  proof (cases "y = x")
    case True
    then show ?thesis by simp
  next
    case False
    with Cons.prems have xin: "x \<in> set ys" and "f y \<notin> f ` set ys" by auto
    then have "f y \<noteq> f x" by (metis imageI)
    with Cons.IH Cons.prems(1) xin show ?thesis by simp
  qed
qed

lemma foldl_expandRelation_entries:
  assumes rels: "relations baseMeta = Some rels"
    and dist: "distinct (map propertyName rels)"
    and named: "[] \<notin> propertyName ` set rels"
  shows "set rs \<subseteq> set rels \<Longrightarrow>
     foldl (expandRelation baseMeta) acc (map (\<lambda>r. (propertyName r, nested)) rs) =
       acc @ map (relationEntry nested) rs"
proof (induction rs arbitrary: acc)
  case Nil
  show ?case by simp
next
  case (Cons r rs)
  then have rin: "r \<in> set rels" and sub: "set rs \<subseteq> set rels" by auto
  from named rin have ne: "propertyName r \<noteq> []" by (metis imageI)
  from find_by_distinct_key [OF dist rin]
  have "expandRelation baseMeta acc (propertyName r, nested) = acc @ [relationEntry nested r]"
    using ne rels by (simp add: expandRelation_def list_or_empty_def relationEntry_def)
  with Cons.IH [OF sub, of "acc @ [relationEntry nested r]"] show ?case by simp
qed

text \<open>
  C8. On a table whose metadata declares N columns with distinct names and M relations
  with distinct, non-empty property names, expanding \<open>["*"]\<close> yields exactly the N column
  names as scalar fields and exactly M relation entries, one per declared relation in
  declaration order, each requesting the identifier field \<open>id\<close> (and only it).
\<close>

theorem expandFieldsMongo_star:
  assumes cache: "metadataCache = Some getTableMetadata"
    and tbl: "getTableMetadata tableName = Some baseMeta"
    and cols: "columns baseMeta = Some cols"
    and rels: "relations baseMeta = Some rels"
    and dcols: "distinct (map name cols)"
    and drels: "distinct (map propertyName rels)"
    and named: "[] \<notin> propertyName ` set rels"
  shows "scalarFields (expandFieldsMongo metadataCache tableName [''*'']) = map name cols \<and>
         length (scalarFields (expandFieldsMongo metadataCache tableName [''*''])) = length cols \<and>
         expandedRelations (expandFieldsMongo metadataCache tableName [''*'']) =
           map (relationEntry [''id'']) rels \<and>
         length (expandedRelations (expandFieldsMongo metadataCache tableName [''*''])) = length rels \<and>
         (\<forall>e\<in>set (expandedRelations (expandFieldsMongo metadataCache tableName [''*''])).
            ''id'' \<in> set (e_nestedFields e))"
proof -
  have grouped: "foldl groupField [] [''*''] = [([], [''*''])]"
    by (simp add: groupField_def map_push_def)
  have scal: "foldl (\<lambda>sf col. push_new sf (name col)) [] cols = map name cols"
    using foldl_push_new_distinct [OF dcols, of "[]"] by simp
  have "fst ` set [([], [''*''])] \<inter> propertyName ` set rels = {}"
    using named by auto
  from foldl_addIdOnly_distinct [OF drels this]
  have byrel: "foldl addIdOnly [([], [''*''])] rels =
      ([], [''*'']) # map (\<lambda>r. (propertyName r, [''id''])) rels"
    by simp
  have st: "foldl (expandRootField baseMeta) ([], [([], [''*''])]) [''*''] =
      (map name cols, ([], [''*'']) # map (\<lambda>r. (propertyName r, [''id''])) rels)"
    by (simp add: expandRootField_def cols rels list_or_empty_def scal byrel)
  have entries: "foldl (expandRelation baseMeta) [] (([], [''*'']) # map (\<lambda>r. (propertyName r, [''id''])) rels) =
      map (relationEntry [''id'']) rels"
    using foldl_expandRelation_entries [OF rels drels named, of rels "[]" "[''id'']"]
    by (simp add: expandRelation_def)
  have root: "list_or_empty (map_of [([], [''*''])] []) = [''*'']"
    by (simp add: list_or_empty_def)
  have "expandFieldsMongo metadataCache tableName [''*''] =
      (let fieldsByRelation = foldl groupField [] [''*''];
           rootFields = list_or_empty (map_of fieldsByRelation []);
           st = foldl (expandRootField baseMeta) ([], fieldsByRelation) rootFields
       in \<lparr> scalarFields = fst st,
            expandedRelations = foldl (expandRelation baseMeta) [] (snd st) \<rparr>)"
    by (simp only: expandFieldsMongo_def cache tbl option.case)
  then have res: "expandFieldsMongo metadataCache tableName [''*''] =
      \<lparr> scalarFields = map name cols, expandedRelations = map (relationEntry [''id'']) rels \<rparr>"
    by (simp only: Let_def grouped root st fst_conv snd_conv entries)
  show ?thesis
    by (simp add: res relationEntry_def)
qed

text \<open>Scenario A's \<open>article\<close>: two columns, two relations.\<close>

theorem expandFieldsMongo_star_witness:
  "scalarFields (expandFieldsMongo (Some scenarioCache) ''article'' [''*'']) = [''id'', ''title''] \<and>
   map e_propertyName (expandedRelations (expandFieldsMongo (Some scenarioCache) ''article'' [''*'']))
     = [''author'', ''tags''] \<and>
   map e_nestedFields (expandedRelations (expandFieldsMongo (Some scenarioCache) ''article'' [''*'']))
     = [[''id''], [''id'']]"
proof -
  have tbl: "scenarioCache ''article'' = Some articleMeta"
    by (simp add: scenarioCache_def lookupTableMeta_def scenarioMetadata_def)
  have cols: "columns articleMeta = Some [\<lparr> name = ''id'', ctype = ''int'' \<rparr>, \<lparr> name = ''title'', ctype = ''varchar'' \<rparr>]"
    by (simp add: articleMeta_def)
  have rels: "relations articleMeta = Some [authorRel, tagsRel]"
    by (simp add: articleMeta_def)
  have dcols: "distinct (map name [\<lparr> name = ''id'', ctype = ''int'' \<rparr>, \<lparr> name = ''title'', ctype = ''varchar'' \<rparr>])"
    by simp
  have drels: "distinct (map propertyName [authorRel, tagsRel])"
    by (simp add: authorRel_def tagsRel_def)
  have named: "[] \<notin> propertyName ` set [authorRel, tagsRel]"
    by (simp add: authorRel_def tagsRel_def)
  from expandFieldsMongo_star [of "Some scenarioCache" scenarioCache "''article''" articleMeta,
      OF refl tbl cols rels dcols drels named]
  show ?thesis
    by (simp add: relationEntry_def authorRel_def tagsRel_def)
qed

section \<open>Properties of the default hooks\<close>

lemma map_of_filter_keys:
  "map_of (filter (\<lambda>kv. fst kv \<notin> S) r) k = (if k \<in> S then None else map_of r k)"
  by (induction r) auto

lemma map_of_stampRecord:
  "map_of (stampRecord r) k =
     (if k = ''createdAt'' \<or> k = ''updatedAt'' then Some CURRENT_TIMESTAMP
      else if k \<in> set timestampKeys then None
      else map_of r k)"
  by (simp add: stampRecord_def Let_def set_prop_def update_conv' map_of_filter_keys)

lemma transformRelationsToFK_any_record:
  "transformRelationsToFK_any metadata tableName (JObj r) =
     (case transformRelationsToFK metadata tableName r of Inl e \<Rightarrow> Inl e | Inr t \<Rightarrow> Inr (JObj t))"
  by (simp add: transformRelationsToFK_any_def transformRelationsToFK_def split: option.split)

lemma relationData_record: "relationData (JObj r) = relationDataOf (Single r)"
  by (simp add: relationData_def relationDataOf_def)

lemma transformRelationsToFK_total:
  "\<exists>t. transformRelationsToFK (Some md) tableName r = Inr t"
  by (simp add: transformRelationsToFK_def split: option.split)

lemma stripUnknownColumns_total:
  "\<exists>s. stripUnknownColumns (Some md) tableName (JObj t) = Inr (JObj s)"
  by (simp add: stripUnknownColumns_def split: option.split)

lemma map_of_filter_in:
  "map_of (filter (\<lambda>kv. fst kv \<in> S) r) k = (if k \<in> S then map_of r k else None)"
  by (induction r) auto

lemma isJunctionTable_declared:
  "isJunctionTable (Some md) tableName \<Longrightarrow> declaredJunction md tableName"
  by (auto simp: isJunctionTable_def declaredJunction_def list_ex_iff split: option.splits)

lemma default_chain_run:
  assumes sync: "syncManyToManyRelations ins metadata tableName r (world_db w) = (None, db1)"
    and tr: "transformRelationsToFK metadata tableName r = Inr t"
    and strip: "stripUnknownColumns metadata tableName (JObj t) = Inr (JObj s)"
    and name: "tableName \<noteq> []"
  shows "runHooks (registerDefaultHooks ins metadata getTableMetadata stringifyRecordJsonFields emptyHooks)
           beforeInsert [JStr tableName, JObj r] w =
         (timestampInsert metadata tableName
            (stringifyJsonFields getTableMetadata stringifyRecordJsonFields tableName (JObj s)),
          w\<lparr> world_db := db1, world_context := (world_context w)(tableName \<mapsto> JObj (relationData (JObj r))) \<rparr>)"
  using assms
  by (simp add: registerDefaultHooks_def runHooks_def addHook_def emptyHooks_def last_arg_def
      set_last_arg_def captureSyncTransform_def pureHandler_def nth_arg_def Let_def
      syncManyToManyRelations_any_def transformRelationsToFK_any_record split: sum.split)

lemma foldl_toOneStepM_untouched:
  "k \<notin> propertyName ` set rels \<Longrightarrow> k \<notin> fkColumnOf ` set rels \<Longrightarrow> foldl toOneStepM m rels k = m k"
proof (induction rels arbitrary: m)
  case Nil
  show ?case by simp
next
  case (Cons x xs)
  from Cons.prems have "toOneStepM m x k = m k"
    by (intro toOneStepM_other) auto
  moreover from Cons.prems have "foldl toOneStepM (toOneStepM m x) xs k = toOneStepM m x k"
    by (intro Cons.IH) auto
  ultimately show ?case by simp
qed

lemma transformRelationsToFK_untouched:
  assumes "transformRelationsToFK (Some md) tableName r = Inr t"
    and "lookupTableMeta md tableName = Some tableMeta"
    and "relations tableMeta = Some rels"
    and "k \<notin> propertyName ` set rels" and "k \<notin> fkColumnOf ` set rels"
  shows "map_of t k = map_of r k"
proof -
  from assms(1-3) have "t = r \<or> t = foldl toManyStep (foldl toOneStep r rels) rels"
    by (auto simp: transformRelationsToFK_def split: if_splits)
  moreover have "map_of (foldl toManyStep (foldl toOneStep r rels) rels) k = map_of r k"
  proof -
    from assms(4) have "\<not> (\<exists>rel\<in>set rels. isToMany rel \<and> propertyName rel = k)" by (metis imageI)
    then show ?thesis
      by (simp only: map_of_foldl_toManyStep map_of_foldl_toOneStep foldl_toManyStepM if_False
          foldl_toOneStepM_untouched [OF assms(4,5)])
  qed
  ultimately show ?thesis by auto
qed

lemma validColumns_plain:
  assumes "columns tableMeta = Some cols" and "relations tableMeta = Some rels"
    and "k \<notin> fkColumnOf ` set rels"
  shows "k \<in> set (validColumns tableMeta) \<longleftrightarrow> k \<in> name ` set cols"
proof -
  let ?fk = "\<lambda>rel. case foreignKeyColumn rel of None \<Rightarrow> [] | Some c \<Rightarrow> if c = [] then [] else [c]"
  have one: "k \<notin> set (?fk rel)" if "rel \<in> set rels" for rel
  proof (cases "foreignKeyColumn rel")
    case None
    then show ?thesis by simp
  next
    case (Some c)
    from that assms(3) have "k \<noteq> fkColumnOf rel" by (metis imageI)
    with Some show ?thesis by (auto simp: fkColumnOf_def truthy_str_def)
  qed
  have "k \<notin> set (concat (map ?fk rels))"
  proof
    assume "k \<in> set (concat (map ?fk rels))"
    then obtain rel where "rel \<in> set rels" "k \<in> set (?fk rel)" by auto
    with one show False by blast
  qed
  moreover have "set (validColumns tableMeta) = name ` set cols \<union> set (concat (map ?fk rels))"
    using assms(1,2) by (simp add: validColumns_def list_or_empty_def)
  ultimately show ?thesis by blast
qed

lemma map_of_insertWithCascade_stamp:
  assumes "\<not> isJunctionTableByName tableName"
  shows "map_of (insertWithCascade_stamp tableName record) ''createdAt'' =
           (if get_prop record ''createdAt'' = JUndef then Some CURRENT_TIMESTAMP
            else map_of record ''createdAt'')"
    and "map_of (insertWithCascade_stamp tableName record) ''updatedAt'' =
           (if get_prop record ''updatedAt'' = JUndef then Some CURRENT_TIMESTAMP
            else map_of record ''updatedAt'')"
    and "k \<noteq> ''createdAt'' \<Longrightarrow> k \<noteq> ''updatedAt'' \<Longrightarrow>
           map_of (insertWithCascade_stamp tableName record) k = map_of record k"
  using assms
  by (simp_all add: insertWithCascade_stamp_def Let_def get_prop_def map_of_set_prop)

text \<open>
  C10 (as the code has it). For the insert of a record through the default \<open>beforeInsert\<close>
  chain, when the many-to-many synchronisation does not fail and the encoder of
  structured values returns a record \<open>encoded\<close>: the chain hands a record \<open>persisted\<close> to
  the insert statement. The encoder was given the caller's record after the foreign-key
  transform (\<open>t\<close>) and after stripping (\<open>s\<close>): on a table with declared columns \<open>s\<close> keeps of
  \<open>t\<close> exactly the declared columns and the foreign-key columns. On a table that no
  many-to-many relation of the metadata names as its junction table, \<open>createdAt\<close> and
  \<open>updatedAt\<close> of \<open>persisted\<close> are \<open>CURRENT_TIMESTAMP\<close>, no other casing variant is left, and
  every other key is as in \<open>encoded\<close>; so, when the encoder leaves \<open>s\<close> as it is, a field of
  the caller that is no timestamp, no relation and no foreign-key column is persisted
  unchanged if it is a declared column and dropped if it is not. On a junction table named in the metadata Map,
  \<open>persisted\<close> is \<open>encoded\<close>: nothing is added. \<open>insertWithCascade\<close> decides by the pattern
  of the table name instead: on a matching name it leaves the record alone, otherwise it
  fills \<open>createdAt\<close> and \<open>updatedAt\<close> only where they are undefined and keeps every other
  key; the two deciders disagree both ways.
\<close>

theorem default_beforeInsert_chain:
  assumes name: "tableName \<noteq> []"
    and sync: "syncManyToManyRelations ins (Some md) tableName r (world_db w) = (None, db1)"
    and tr: "transformRelationsToFK (Some md) tableName r = Inr t"
    and strip: "stripUnknownColumns (Some md) tableName (JObj t) = Inr (JObj s)"
    and enc: "stringifyJsonFields getTableMetadata stringifyRecordJsonFields tableName (JObj s) = JObj encoded"
  shows "\<exists>persisted w1.
     runHooks (registerDefaultHooks ins (Some md) getTableMetadata stringifyRecordJsonFields emptyHooks)
        beforeInsert [JStr tableName, JObj r] w = (Inr (JObj persisted), w1) \<and>
     world_db w1 = db1 \<and>
     world_context w1 = captureInsert tableName (Single r) (world_context w) \<and>
     (\<forall>tableMeta cols. lookupTableMeta md tableName = Some tableMeta \<longrightarrow> columns tableMeta = Some cols \<longrightarrow>
        (\<forall>k. map_of s k = (if k \<in> set (validColumns tableMeta) then map_of t k else None))) \<and>
     (\<not> declaredJunction md tableName \<longrightarrow>
        map_of persisted ''createdAt'' = Some CURRENT_TIMESTAMP \<and>
        map_of persisted ''updatedAt'' = Some CURRENT_TIMESTAMP \<and>
        (\<forall>k \<in> set timestampKeys. k \<noteq> ''createdAt'' \<longrightarrow> k \<noteq> ''updatedAt'' \<longrightarrow> map_of persisted k = None) \<and>
        (\<forall>k. k \<notin> set timestampKeys \<longrightarrow> map_of persisted k = map_of encoded k)) \<and>
     (isJunctionTable (Some md) tableName \<longrightarrow> persisted = encoded) \<and>
     (\<forall>tableMeta cols rels k.
        lookupTableMeta md tableName = Some tableMeta \<longrightarrow> columns tableMeta = Some cols \<longrightarrow>
        relations tableMeta = Some rels \<longrightarrow> encoded = s \<longrightarrow> \<not> declaredJunction md tableName \<longrightarrow>
        k \<notin> set timestampKeys \<longrightarrow> k \<notin> propertyName ` set rels \<longrightarrow> k \<notin> fkColumnOf ` set rels \<longrightarrow>
        map_of persisted k = (if k \<in> name ` set cols then map_of r k else None)) \<and>
     (\<forall>record. isJunctionTableByName tableName \<longrightarrow> insertWithCascade_stamp tableName record = record) \<and>
     (\<forall>record. \<not> isJunctionTableByName tableName \<longrightarrow>
        map_of (insertWithCascade_stamp tableName record) ''createdAt'' =
          (if get_prop record ''createdAt'' = JUndef then Some CURRENT_TIMESTAMP
           else map_of record ''createdAt'') \<and>
        map_of (insertWithCascade_stamp tableName record) ''updatedAt'' =
          (if get_prop record ''updatedAt'' = JUndef then Some CURRENT_TIMESTAMP
           else map_of record ''updatedAt'') \<and>
        (\<forall>k. k \<noteq> ''createdAt'' \<longrightarrow> k \<noteq> ''updatedAt'' \<longrightarrow>
           map_of (insertWithCascade_stamp tableName record) k = map_of record k)) \<and>
     (isJunctionTable (Some scenarioMetadata) ''article_tags'' \<and> \<not> isJunctionTableByName ''article_tags'') \<and>
     (\<not> isJunctionTable (Some scenarioMetadata) ''route_definition_methods'' \<and>
        isJunctionTableByName ''route_definition_methods'')"
proof -
  define persisted where
    "persisted = (if isJunctionTable (Some md) tableName then encoded else stampRecord encoded)"
  define w1 where
    "w1 = w\<lparr> world_db := db1,
              world_context := (world_context w)(tableName \<mapsto> JObj (relationData (JObj r))) \<rparr>"
  have stamp: "timestampInsert (Some md) tableName (JObj encoded) = Inr (JObj persisted)"
    by (simp add: timestampInsert_def stampValue_def persisted_def)
  have run: "runHooks (registerDefaultHooks ins (Some md) getTableMetadata stringifyRecordJsonFields emptyHooks)
        beforeInsert [JStr tableName, JObj r] w = (Inr (JObj persisted), w1)"
    by (simp only: default_chain_run [OF sync tr strip name] enc stamp w1_def)
  have db: "world_db w1 = db1" by (simp add: w1_def)
  have ctx: "world_context w1 = captureInsert tableName (Single r) (world_context w)"
    by (simp add: w1_def captureInsert_def relationData_record)
  have stripped: "map_of s k = (if k \<in> set (validColumns tableMeta) then map_of t k else None)"
    if "lookupTableMeta md tableName = Some tableMeta" "columns tableMeta = Some cols" for tableMeta cols k
    using strip that name by (auto simp: stripUnknownColumns_def map_of_filter_in)
  have plain: "map_of persisted ''createdAt'' = Some CURRENT_TIMESTAMP \<and>
        map_of persisted ''updatedAt'' = Some CURRENT_TIMESTAMP \<and>
        (\<forall>k \<in> set timestampKeys. k \<noteq> ''createdAt'' \<longrightarrow> k \<noteq> ''updatedAt'' \<longrightarrow> map_of persisted k = None) \<and>
        (\<forall>k. k \<notin> set timestampKeys \<longrightarrow> map_of persisted k = map_of encoded k)"
    if nd: "\<not> declaredJunction md tableName"
  proof -
    from nd isJunctionTable_declared [of md tableName]
    have p: "persisted = stampRecord encoded" by (auto simp: persisted_def)
    have other: "map_of (stampRecord encoded) k = map_of encoded k" if k: "k \<notin> set timestampKeys" for k
    proof -
      from k have "k \<noteq> ''createdAt''" "k \<noteq> ''updatedAt''" by (auto simp: timestampKeys_def)
      with k show ?thesis by (simp add: map_of_stampRecord)
    qed
    show ?thesis
      unfolding p
    proof (intro conjI ballI allI impI)
      show "map_of (stampRecord encoded) ''createdAt'' = Some CURRENT_TIMESTAMP"
        by (simp add: map_of_stampRecord)
      show "map_of (stampRecord encoded) ''updatedAt'' = Some CURRENT_TIMESTAMP"
        by (simp add: map_of_stampRecord)
    next
      fix k assume "k \<in> set timestampKeys" "k \<noteq> ''createdAt''" "k \<noteq> ''updatedAt''"
      then show "map_of (stampRecord encoded) k = None" by (simp add: map_of_stampRecord)
    next
      fix k assume "k \<notin> set timestampKeys"
      then show "map_of (stampRecord encoded) k = map_of encoded k" by (rule other)
    qed
  qed
  have junction: "persisted = encoded" if "isJunctionTable (Some md) tableName"
    using that by (simp add: persisted_def)
  have plainfield: "map_of persisted k = (if k \<in> name ` set cols then map_of r k else None)"
    if tm: "lookupTableMeta md tableName = Some tableMeta" and cs: "columns tableMeta = Some cols"
      and rs: "relations tableMeta = Some rels" and id: "encoded = s"
      and nd: "\<not> declaredJunction md tableName" and k: "k \<notin> set timestampKeys"
      and kp: "k \<notin> propertyName ` set rels" and kf: "k \<notin> fkColumnOf ` set rels"
    for tableMeta cols rels k
  proof -
    from plain [OF nd] have "\<forall>k. k \<notin> set timestampKeys \<longrightarrow> map_of persisted k = map_of encoded k"
      by (elim conjE)
    with k id have "map_of persisted k = map_of s k" by simp
    also have "\<dots> = (if k \<in> set (validColumns tableMeta) then map_of t k else None)"
      by (rule stripped [OF tm cs])
    also have "\<dots> = (if k \<in> name ` set cols then map_of t k else None)"
      by (simp only: validColumns_plain [OF cs rs kf])
    also have "\<dots> = (if k \<in> name ` set cols then map_of r k else None)"
      by (simp only: transformRelationsToFK_untouched [OF tr tm rs kp kf])
    finally show ?thesis .
  qed
  have byname: "insertWithCascade_stamp tableName row = row" if "isJunctionTableByName tableName" for row
    using that by (simp add: insertWithCascade_stamp_def)
  have d1: "isJunctionTable (Some scenarioMetadata) ''article_tags''"
    by (simp add: isJunctionTable_def scenarioMetadata_def articleMeta_def authorRel_def tagsRel_def)
  have d2: "\<not> isJunctionTableByName ''article_tags''"
    by (simp add: isJunctionTableByName_def)
  have d3: "\<not> isJunctionTable (Some scenarioMetadata) ''route_definition_methods''"
    by (simp add: isJunctionTable_def scenarioMetadata_def articleMeta_def authorRel_def tagsRel_def)
  have d4: "isJunctionTableByName ''route_definition_methods''"
    by (simp add: isJunctionTableByName_def)
  show ?thesis
  proof (intro exI conjI allI impI)
    show "runHooks (registerDefaultHooks ins (Some md) getTableMetadata stringifyRecordJsonFields emptyHooks)
        beforeInsert [JStr tableName, JObj r] w = (Inr (JObj persisted), w1)" by (rule run)
    show "world_db w1 = db1" by (rule db)
    show "world_context w1 = captureInsert tableName (Single r) (world_context w)" by (rule ctx)
    show "isJunctionTable (Some scenarioMetadata) ''article_tags''" by (rule d1)
    show "\<not> isJunctionTableByName ''article_tags''" by (rule d2)
    show "\<not> isJunctionTable (Some scenarioMetadata) ''route_definition_methods''" by (rule d3)
    show "isJunctionTableByName ''route_definition_methods''" by (rule d4)
  next
    fix tableMeta cols k
    assume "lookupTableMeta md tableName = Some tableMeta" "columns tableMeta = Some cols"
    then show "map_of s k = (if k \<in> set (validColumns tableMeta) then map_of t k else None)"
      by (rule stripped)
  next
    assume nd: "\<not> declaredJunction md tableName"
    from plain [OF nd] show "map_of persisted ''createdAt'' = Some CURRENT_TIMESTAMP" by (elim conjE)
    from plain [OF nd] show "map_of persisted ''updatedAt'' = Some CURRENT_TIMESTAMP" by (elim conjE)
    from plain [OF nd]
    show "\<forall>k \<in> set timestampKeys. k \<noteq> ''createdAt'' \<longrightarrow> k \<noteq> ''updatedAt'' \<longrightarrow> map_of persisted k = None"
      by (elim conjE)
    fix k assume k: "k \<notin> set timestampKeys"
    from plain [OF nd] have "\<forall>k. k \<notin> set timestampKeys \<longrightarrow> map_of persisted k = map_of encoded k"
      by (elim conjE)
    with k show "map_of persisted k = map_of encoded k" by simp
  next
    assume "isJunctionTable (Some md) tableName"
    then show "persisted = encoded" by (rule junction)
  next
    fix tableMeta cols rels k
    assume "lookupTableMeta md tableName = Some tableMeta" "columns tableMeta = Some cols"
      "relations tableMeta = Some rels" "encoded = s" "\<not> declaredJunction md tableName"
      "k \<notin> set timestampKeys" "k \<notin> propertyName ` set rels" "k \<notin> fkColumnOf ` set rels"
    then show "map_of persisted k = (if k \<in> name ` set cols then map_of r k else None)"
      by (rule plainfield)
  next
    fix row :: jsrecord
    assume "isJunctionTableByName tableName"
    then show "insertWithCascade_stamp tableName row = row" by (rule byname)
  next
    fix row :: jsrecord
    assume nj: "\<not> isJunctionTableByName tableName"
    show "map_of (insertWithCascade_stamp tableName row) ''createdAt'' =
          (if get_prop row ''createdAt'' = JUndef then Some CURRENT_TIMESTAMP
           else map_of row ''createdAt'')"
      by (rule map_of_insertWithCascade_stamp(1) [OF nj])
    show "map_of (insertWithCascade_stamp tableName row) ''updatedAt'' =
          (if get_prop row ''updatedAt'' = JUndef then Some CURRENT_TIMESTAMP
           else map_of row ''updatedAt'')"
      by (rule map_of_insertWithCascade_stamp(2) [OF nj])
    fix k assume "k \<noteq> ''createdAt''" "k \<noteq> ''updatedAt''"
    then show "map_of (insertWithCascade_stamp tableName row) k = map_of row k"
      by (rule map_of_insertWithCascade_stamp(3) [OF nj])
  qed
qed

lemmas default_chain_eval_defs = scenarioHooks_def registerDefaultHooks_def runHooks_def addHook_def
  emptyHooks_def last_arg_def set_last_arg_def captureSyncTransform_def pureHandler_def nth_arg_def
  Let_def syncManyToManyRelations_any_def syncManyToManyRelations_def transformRelationsToFK_any_def
  stripUnknownColumns_def validColumns_def list_or_empty_def stringifyJsonFields_def noJsonFields_def
  scenarioCache_def timestampInsert_def stampValue_def stampRecord_def timestampKeys_def
  isJunctionTable_def lookupTableMeta_def scenarioMetadata_def listedMetadata_def articleMeta_def
  authorRel_def tagsRel_def toOneStep_def toManyStep_def isToOne_def isToMany_def fkColumnOf_def
  truthy_str_def has_key_def get_prop_def set_prop_def delete_prop_def emptyWorld_def

text \<open>
  Scenario A through the chain: \<open>author: {id: 5}\<close> is persisted as \<open>authorId: 5\<close> with both
  timestamps; a row of the junction table \<open>article_tags\<close> is persisted as it came.
\<close>

theorem default_beforeInsert_chain_witness:
  "(\<exists>persisted w1.
      runHooks scenarioHooks beforeInsert
        [JStr ''article'',
         JObj [(''title'', JStr ''Hello''), (''author'', JObj [(''id'', JNum 5)]),
               (''tags'', JArr [JObj [(''id'', JNum 1)], JObj [(''id'', JNum 2)]])]] emptyWorld
        = (Inr (JObj persisted), w1) \<and>
      map_of persisted ''createdAt'' = Some CURRENT_TIMESTAMP \<and>
      map_of persisted ''updatedAt'' = Some CURRENT_TIMESTAMP \<and>
      map_of persisted ''created_at'' = None \<and>
      map_of persisted ''title'' = Some (JStr ''Hello'') \<and>
      map_of persisted ''authorId'' = Some (JNum 5) \<and>
      map_of persisted ''author'' = None) \<and>
   (\<exists>persisted w1.
      runHooks scenarioHooks beforeInsert
        [JStr ''article_tags'', JObj [(''articleId'', JNum 1), (''tagId'', JNum 2)]] emptyWorld
        = (Inr (JObj persisted), w1) \<and>
      persisted = [(''articleId'', JNum 1), (''tagId'', JNum 2)])"
proof -
  let ?r = "[(''title'', JStr ''Hello''), (''author'', JObj [(''id'', JNum 5)]),
             (''tags'', JArr [JObj [(''id'', JNum 1)], JObj [(''id'', JNum 2)]])]"
  let ?t = "[(''title'', JStr ''Hello''), (''authorId'', JNum 5)]"
  let ?j = "[(''articleId'', JNum 1), (''tagId'', JNum 2)]"
  have n1: "''article'' \<noteq> []" by simp
  have sync1: "syncManyToManyRelations insertRows (Some scenarioMetadata) ''article'' ?r (world_db emptyWorld)
      = (None, world_db emptyWorld)"
    by (simp add: syncManyToManyRelations_def get_prop_def)
  have tr1: "transformRelationsToFK (Some scenarioMetadata) ''article'' ?r = Inr ?t"
    by (simp add: fk_eval_defs scenario_defs)
  have strip1: "stripUnknownColumns (Some scenarioMetadata) ''article'' (JObj ?t) = Inr (JObj ?t)"
    by (simp add: stripUnknownColumns_def validColumns_def list_or_empty_def lookupTableMeta_def scenario_defs)
  have enc1: "stringifyJsonFields scenarioCache noJsonFields ''article'' (JObj ?t) = JObj ?t"
    by (simp add: stringifyJsonFields_def noJsonFields_def split: option.split)
  have nd1: "\<not> declaredJunction scenarioMetadata ''article''"
    by (simp add: declaredJunction_def scenario_defs)
  note T1 = default_beforeInsert_chain [where getTableMetadata = scenarioCache
      and stringifyRecordJsonFields = noJsonFields, OF n1 sync1 tr1 strip1 enc1]
  then obtain p1 w1 where
    run1: "runHooks (registerDefaultHooks insertRows (Some scenarioMetadata) scenarioCache noJsonFields emptyHooks)
        beforeInsert [JStr ''article'', JObj ?r] emptyWorld = (Inr (JObj p1), w1)"
    and frame1: "\<not> declaredJunction scenarioMetadata ''article'' \<longrightarrow>
        map_of p1 ''createdAt'' = Some CURRENT_TIMESTAMP \<and>
        map_of p1 ''updatedAt'' = Some CURRENT_TIMESTAMP \<and>
        (\<forall>k \<in> set timestampKeys. k \<noteq> ''createdAt'' \<longrightarrow> k \<noteq> ''updatedAt'' \<longrightarrow> map_of p1 k = None) \<and>
        (\<forall>k. k \<notin> set timestampKeys \<longrightarrow> map_of p1 k = map_of ?t k)"
    by (elim exE conjE)
  from frame1 nd1 have c1: "map_of p1 ''createdAt'' = Some CURRENT_TIMESTAMP"
    and c2: "map_of p1 ''updatedAt'' = Some CURRENT_TIMESTAMP"
    and c3: "\<forall>k \<in> set timestampKeys. k \<noteq> ''createdAt'' \<longrightarrow> k \<noteq> ''updatedAt'' \<longrightarrow> map_of p1 k = None"
    and c4: "\<forall>k. k \<notin> set timestampKeys \<longrightarrow> map_of p1 k = map_of ?t k"
    by simp_all
  from c3 have c5: "map_of p1 ''created_at'' = None" by (simp add: timestampKeys_def)
  from c4 have c6: "map_of p1 ''title'' = Some (JStr ''Hello'')" by (simp add: timestampKeys_def)
  from c4 have c7: "map_of p1 ''authorId'' = Some (JNum 5)" by (simp add: timestampKeys_def)
  from c4 have c8: "map_of p1 ''author'' = None" by (simp add: timestampKeys_def)
  have first: "\<exists>persisted w1.
      runHooks scenarioHooks beforeInsert [JStr ''article'', JObj ?r] emptyWorld = (Inr (JObj persisted), w1) \<and>
      map_of persisted ''createdAt'' = Some CURRENT_TIMESTAMP \<and>
      map_of persisted ''updatedAt'' = Some CURRENT_TIMESTAMP \<and>
      map_of persisted ''created_at'' = None \<and>
      map_of persisted ''title'' = Some (JStr ''Hello'') \<and>
      map_of persisted ''authorId'' = Some (JNum 5) \<and>
      map_of persisted ''author'' = None"
    unfolding scenarioHooks_def using run1 c1 c2 c5 c6 c7 c8 by blast
  have n2: "''article_tags'' \<noteq> []" by simp
  have sync2: "syncManyToManyRelations insertRows (Some scenarioMetadata) ''article_tags'' ?j (world_db emptyWorld)
      = (None, world_db emptyWorld)"
    by (simp add: syncManyToManyRelations_def get_prop_def)
  have tr2: "transformRelationsToFK (Some scenarioMetadata) ''article_tags'' ?j = Inr ?j"
    by (simp add: fk_eval_defs scenario_defs)
  have strip2: "stripUnknownColumns (Some scenarioMetadata) ''article_tags'' (JObj ?j) = Inr (JObj ?j)"
    by (simp add: stripUnknownColumns_def lookupTableMeta_def scenario_defs)
  have enc2: "stringifyJsonFields scenarioCache noJsonFields ''article_tags'' (JObj ?j) = JObj ?j"
    by (simp add: stringifyJsonFields_def noJsonFields_def split: option.split)
  have j2: "isJunctionTable (Some scenarioMetadata) ''article_tags''"
    by (simp add: isJunctionTable_def scenario_defs)
  note T2 = default_beforeInsert_chain [where getTableMetadata = scenarioCache
      and stringifyRecordJsonFields = noJsonFields, OF n2 sync2 tr2 strip2 enc2]
  then obtain p2 w2 where
    run2: "runHooks (registerDefaultHooks insertRows (Some scenarioMetadata) scenarioCache noJsonFields emptyHooks)
        beforeInsert [JStr ''article_tags'', JObj ?j] emptyWorld = (Inr (JObj p2), w2)"
    and frame2: "isJunctionTable (Some scenarioMetadata) ''article_tags'' \<longrightarrow> p2 = ?j"
    by (elim exE conjE)
  from frame2 j2 have "p2 = ?j" by simp
  with run2 have second: "\<exists>persisted w1.
      runHooks scenarioHooks beforeInsert [JStr ''article_tags'', JObj ?j] emptyWorld = (Inr (JObj persisted), w1) \<and>
      persisted = ?j"
    unfolding scenarioHooks_def by blast
  from first second show ?thesis by (rule conjI)
qed

text \<open>
  The caller's fields are not all persisted unchanged: the relation \<open>author\<close> is replaced
  by the column \<open>authorId\<close>, and \<open>nickname\<close>, which is no column of \<open>article\<close>, is dropped.
\<close>

theorem default_chain_payload_changed_counterexample:
  "fst (runHooks scenarioHooks beforeInsert
          [JStr ''article'',
           JObj [(''title'', JStr ''Hello''), (''author'', JObj [(''id'', JNum 5)]),
                 (''nickname'', JStr ''x'')]] emptyWorld)
     = Inr (JObj [(''title'', JStr ''Hello''), (''authorId'', JNum 5),
                  (''createdAt'', CURRENT_TIMESTAMP), (''updatedAt'', CURRENT_TIMESTAMP)])"
  by (simp add: default_chain_eval_defs)

text \<open>
  An array of records for a table with metadata is spread into one object by the
  foreign-key transform, loses its index keys to the stripping, and is persisted as a
  single record holding the two timestamps only.
\<close>

lemma default_chain_array_payload:
  "fst (runHooks scenarioHooks beforeInsert
          [JStr ''article'',
           JArr [JObj [(''title'', JStr ''A'')], JObj [(''title'', JStr ''B'')]]] emptyWorld)
     = Inr (JObj [(''createdAt'', CURRENT_TIMESTAMP), (''updatedAt'', CURRENT_TIMESTAMP)])"
  by (simp add: default_chain_eval_defs)

text \<open>
  A junction table declared only through the list of tables is not recognised by
  \<open>isJunctionTable\<close>, which reads the Map alone, and its rows are stamped.
\<close>

lemma default_chain_listed_junction:
  "declaredJunction listedMetadata ''article_tags''"
  "\<not> isJunctionTable (Some listedMetadata) ''article_tags''"
  "fst (runHooks (registerDefaultHooks insertRows (Some listedMetadata) (lookupTableMeta listedMetadata)
                    noJsonFields emptyHooks) beforeInsert
          [JStr ''article_tags'', JObj [(''articleId'', JNum 1), (''tagId'', JNum 2)]] emptyWorld)
     = Inr (JObj [(''articleId'', JNum 1), (''tagId'', JNum 2),
                  (''createdAt'', CURRENT_TIMESTAMP), (''updatedAt'', CURRENT_TIMESTAMP)])"
  by (simp_all add: default_chain_eval_defs declaredJunction_def)

text \<open>
  On a table without metadata the first three handlers return an array of records as it
  is, and the last handler stamps each of its records.
\<close>

lemma stampAll_records: "stampAll (map JObj rs) = Inr (map (\<lambda>r. JObj (stampRecord r)) rs)"
  by (induction rs) (simp_all add: stampValue_def)

lemma timestampInsert_array:
  "\<not> isJunctionTable metadata tableName \<Longrightarrow>
   timestampInsert metadata tableName (JArr (map JObj rs)) = Inr (JArr (map (\<lambda>r. JObj (stampRecord r)) rs))"
  by (simp add: timestampInsert_def stampAll_records)

text \<open>
  \<open>insertWithCascade\<close> keeps a caller-supplied \<open>createdAt\<close>, and stamps a junction table
  whose name does not match its pattern.
\<close>

lemma insertWithCascade_stamp_examples:
  "insertWithCascade_stamp ''article'' [(''createdAt'', JStr ''2020-01-01'')]
     = [(''createdAt'', JStr ''2020-01-01''), (''updatedAt'', CURRENT_TIMESTAMP)]"
  "insertWithCascade_stamp ''article_tags'' [(''articleId'', JNum 1)]
     = [(''articleId'', JNum 1), (''createdAt'', CURRENT_TIMESTAMP), (''updatedAt'', CURRENT_TIMESTAMP)]"
  by (simp_all add: insertWithCascade_stamp_def isJunctionTableByName_def get_prop_def set_prop_def
      CURRENT_TIMESTAMP_def)

section \<open>Properties of the cascade context\<close>

text \<open>
  C2 (as the code has it). The cascade context is keyed by the table name alone: a
  before-handler stores its write's payload under the table name whatever was stored
  there, leaves the entries of other tables alone, and the \<open>afterUpdate\<close> handler of any
  write to the table reads the entry of the latest before-handler on that table.
\<close>

theorem cascade_context_keyed_by_table:
  "captureUpdate t d ctx t = Some (updateEntry d) \<and>
   captureInsert t d ctx t = Some (JObj (relationDataOf d)) \<and>
   (\<forall>t'. t' \<noteq> t \<longrightarrow> captureUpdate t d ctx t' = ctx t' \<and> captureInsert t d ctx t' = ctx t') \<and>
   afterUpdateCascadeArgs t (captureUpdate t d2 (captureUpdate t d ctx)) =
     Some (recordIdOf d2, updateEntry d2)"
  by (simp add: captureUpdate_def captureInsert_def afterUpdateCascadeArgs_def updateEntry_def
      get_prop_def)

text \<open>An update of \<open>article\<close> leaves the entry of \<open>tag\<close> alone and replaces the entry of \<open>article\<close>.\<close>

theorem cascade_context_keyed_by_table_witness:
  "captureUpdate ''article'' updateB (captureUpdate ''tag'' updateA Map.empty) ''tag'' = Some (updateEntry updateA) \<and>
   captureUpdate ''article'' updateB (captureUpdate ''article'' updateA Map.empty) ''article'' = Some (updateEntry updateB)"
proof -
  have ne: "''tag'' \<noteq> ''article''" by simp
  note T = cascade_context_keyed_by_table [of "''article''" updateB "captureUpdate ''tag'' updateA Map.empty" updateB]
  from T [THEN conjunct2, THEN conjunct2, THEN conjunct1, THEN spec, THEN mp, THEN conjunct1, OF ne]
  have "captureUpdate ''article'' updateB (captureUpdate ''tag'' updateA Map.empty) ''tag''
      = captureUpdate ''tag'' updateA Map.empty ''tag''" .
  also have "\<dots> = Some (updateEntry updateA)"
    by (simp add: captureUpdate_def)
  finally have first: "captureUpdate ''article'' updateB (captureUpdate ''tag'' updateA Map.empty) ''tag''
      = Some (updateEntry updateA)" .
  from cascade_context_keyed_by_table [of "''article''" updateB "captureUpdate ''article'' updateA Map.empty" updateB,
      THEN conjunct1]
  have "captureUpdate ''article'' updateB (captureUpdate ''article'' updateA Map.empty) ''article''
      = Some (updateEntry updateB)" .
  with first show ?thesis by simp
qed

text \<open>
  Two overlapping writes. Update A (article 1) runs its first before-handler, then update B
  (article 2) runs its own while A awaits the database; A's \<open>afterUpdate\<close> handler then
  finds B's entry and hands B's record id and B's tags to the cascade.
\<close>

theorem cascade_context_overwritten_counterexample:
  "recordIdOf updateA = JNum 1 \<and>
   afterUpdateCascadeArgs ''article''
      (captureUpdate ''article'' updateB (captureUpdate ''article'' updateA Map.empty)) =
     Some (JNum 2,
           JObj [(''relationData'', JObj [(''tags'', JArr [JObj [(''id'', JNum 9)]])]),
                 (''recordId'', JNum 2)])"
  by (simp add: captureUpdate_def afterUpdateCascadeArgs_def updateEntry_def relationDataOf_def
      recordIdOf_def updateA_def updateB_def get_prop_def)

section \<open>Properties of the many-to-many synchronisation\<close>


lemma syncRelations_skip:
  "\<not> syncApplies data r \<Longrightarrow> syncRelations ins data (r # rest) db = syncRelations ins data rest db"
  by (auto simp: syncApplies_def)


lemma syncRelations_fail:
  assumes "syncApplies data r"
    and "junctionTableName r = Some jt" "junctionSourceColumn r = Some sc" "junctionTargetColumn r = Some tc"
    and "newIdsOf (get_prop data (propertyName r)) = Inr ids" "ids \<noteq> []"
    and "ins jt (map (junctionRow sc tc (get_prop data ''id'')) ids)
           (deleteWhere jt sc (get_prop data ''id'') db) = Inl e"
  shows "syncRelations ins data (r # rest) db = (Some e, deleteWhere jt sc (get_prop data ''id'') db)"
  using assms by (simp add: syncApplies_def)








lemmas sync_eval_defs = syncManyToManyRelations_def lookupTableMeta_def scenarioMetadata_def
  articleMeta_def authorRel_def tagsRel_def truthy_str_def has_key_def get_prop_def set_prop_def
  newIdsOf_def itemId_def deleteWhere_def insertRows_def junctionRow_def scenarioDb_def
  ownerRows_def otherRows_def Let_def

lemma syncRelations_skip_all:
  "(\<And>r. r \<in> set skipped \<Longrightarrow> \<not> syncApplies data r) \<Longrightarrow>
   syncRelations ins data (skipped @ rs) db = syncRelations ins data rs db"
proof (induction skipped)
  case Nil
  show ?case by simp
next
  case (Cons r skipped)
  have "\<not> syncApplies data r" using Cons.prems by simp
  from syncRelations_skip [OF this] have "syncRelations ins data ((r # skipped) @ rs) db =
      syncRelations ins data (skipped @ rs) db"
    by simp
  also have "\<dots> = syncRelations ins data rs db"
    using Cons.prems by (intro Cons.IH) simp
  finally show ?case .
qed

lemma ownerRows_deleteWhere: "ownerRows (deleteWhere jt sc k db) jt sc k = []"
  by (simp add: ownerRows_def deleteWhere_def)

text \<open>
  C3 (as the code has it). The junction delete and the junction insert are two statements
  sent one after the other on the base connection, outside any transaction. When the
  backend rejects the insert of the first relation the loop acts on, the error propagates
  and the database stays as the delete left it: the owner has no junction rows.
\<close>

theorem sync_delete_survives_failed_insert:
  assumes name: "tableName \<noteq> []"
    and owner: "truthy (get_prop data ''id'')"
    and tbl: "lookupTableMeta md tableName = Some tableMeta"
    and rels: "relations tableMeta = Some (skipped @ rel # rest)"
    and skip: "\<forall>r\<in>set skipped. \<not> syncApplies data r"
    and rel: "syncApplies data rel"
    and cols: "junctionTableName rel = Some jt" "junctionSourceColumn rel = Some sc"
      "junctionTargetColumn rel = Some tc"
    and ids: "newIdsOf (get_prop data (propertyName rel)) = Inr ids" "ids \<noteq> []"
    and rejected: "ins jt (map (junctionRow sc tc (get_prop data ''id'')) ids)
                     (deleteWhere jt sc (get_prop data ''id'') db) = Inl e"
  shows "syncManyToManyRelations ins (Some md) tableName data db =
           (Some e, deleteWhere jt sc (get_prop data ''id'') db) \<and>
         ownerRows (deleteWhere jt sc (get_prop data ''id'') db) jt sc (get_prop data ''id'') = []"
proof -
  have "syncManyToManyRelations ins (Some md) tableName data db =
      syncRelations ins data (skipped @ rel # rest) db"
    using name owner tbl rels by (simp add: syncManyToManyRelations_def)
  also have "\<dots> = syncRelations ins data (rel # rest) db"
    using skip by (intro syncRelations_skip_all) blast
  also have "\<dots> = (Some e, deleteWhere jt sc (get_prop data ''id'') db)"
    by (rule syncRelations_fail [where ins = ins and db = db, OF rel cols ids rejected])
  finally show ?thesis by (simp add: ownerRows_deleteWhere)
qed

text \<open>Article 1 is retagged \<open>{3}\<close> and the backend rejects the new row.\<close>

theorem sync_delete_survives_failed_insert_witness:
  "syncManyToManyRelations rejectRows (Some scenarioMetadata) ''article''
      [(''id'', JNum 1), (''tags'', JArr [JObj [(''id'', JNum 3)]])] scenarioDb =
     (Some (Error ''insert rejected''), deleteWhere ''article_tags'' ''articleId'' (JNum 1) scenarioDb) \<and>
   ownerRows (deleteWhere ''article_tags'' ''articleId'' (JNum 1) scenarioDb)
      ''article_tags'' ''articleId'' (JNum 1) = []"
proof -
  let ?data = "[(''id'', JNum 1), (''tags'', JArr [JObj [(''id'', JNum 3)]])]"
  have idv: "get_prop ?data ''id'' = JNum 1" by (simp add: get_prop_def)
  have h1: "''article'' \<noteq> []" by simp
  have h2: "truthy (get_prop ?data ''id'')" by (simp add: idv)
  have h3: "lookupTableMeta scenarioMetadata ''article'' = Some articleMeta"
    by (simp add: lookupTableMeta_def scenarioMetadata_def)
  have h4: "relations articleMeta = Some ([authorRel] @ tagsRel # [])" by (simp add: articleMeta_def)
  have h5: "\<forall>r\<in>set [authorRel]. \<not> syncApplies ?data r" by (simp add: syncApplies_def authorRel_def)
  have h6: "syncApplies ?data tagsRel"
    by (simp add: syncApplies_def tagsRel_def has_key_def truthy_str_def)
  have h7: "junctionTableName tagsRel = Some ''article_tags''"
    "junctionSourceColumn tagsRel = Some ''articleId''" "junctionTargetColumn tagsRel = Some ''tagId''"
    by (simp_all add: tagsRel_def)
  have h8: "newIdsOf (get_prop ?data (propertyName tagsRel)) = Inr [JNum 3]" "[JNum 3] \<noteq> []"
    by (simp_all add: tagsRel_def get_prop_def newIdsOf_def itemId_def)
  have h9: "rejectRows ''article_tags'' (map (junctionRow ''articleId'' ''tagId'' (get_prop ?data ''id'')) [JNum 3])
      (deleteWhere ''article_tags'' ''articleId'' (get_prop ?data ''id'') scenarioDb) = Inl (Error ''insert rejected'')"
    by (simp add: rejectRows_def)
  from sync_delete_survives_failed_insert [where ins = rejectRows and db = scenarioDb
      and skipped = "[authorRel]" and rel = tagsRel and rest = "[]", OF h1 h2 h3 h4 h5 h6 h7 h8 h9]
  show ?thesis by (simp only: idv)
qed

text \<open>
  A half-state is left: after the rejected insert the two junction rows of article 1 are
  gone and stay gone; only the row of article 7 is left.
\<close>

theorem sync_half_state_counterexample:
  "scenarioDb ''article_tags'' =
     [[(''articleId'', JNum 1), (''tagId'', JNum 1)],
      [(''articleId'', JNum 1), (''tagId'', JNum 2)],
      [(''articleId'', JNum 7), (''tagId'', JNum 1)]] \<and>
   fst (syncManyToManyRelations rejectRows (Some scenarioMetadata) ''article''
          [(''id'', JNum 1), (''tags'', JArr [JObj [(''id'', JNum 3)]])] scenarioDb)
     = Some (Error ''insert rejected'') \<and>
   snd (syncManyToManyRelations rejectRows (Some scenarioMetadata) ''article''
          [(''id'', JNum 1), (''tags'', JArr [JObj [(''id'', JNum 3)]])] scenarioDb) ''article_tags''
     = [[(''articleId'', JNum 7), (''tagId'', JNum 1)]]"
  by (simp add: sync_eval_defs rejectRows_def)

text \<open>Scenario B on the accepting backend: the tags of article 1 become exactly \<open>{2, 3}\<close>.\<close>

lemma scenario_B_sync:
  "snd (syncManyToManyRelations insertRows (Some scenarioMetadata) ''article''
          [(''id'', JNum 1), (''tags'', JArr [JObj [(''id'', JNum 2)], JObj [(''id'', JNum 3)]])] scenarioDb)
     ''article_tags''
     = [[(''articleId'', JNum 7), (''tagId'', JNum 1)],
        [(''articleId'', JNum 1), (''tagId'', JNum 2)],
        [(''articleId'', JNum 1), (''tagId'', JNum 3)]]"
  by (simp add: sync_eval_defs)

text \<open>An owner whose identity is 0 is falsy for the guard \<^verbatim>\<open>!data.id\<close>: nothing is synchronised.\<close>

lemma sync_falsy_identity:
  "syncManyToManyRelations insertRows (Some scenarioMetadata) ''article''
      [(''id'', JNum 0), (''tags'', JArr [JNum 5])] scenarioDb = (None, scenarioDb)"
  by (simp add: syncManyToManyRelations_def get_prop_def)

end
